theory Spec2Isabelle
  imports Complex_Main
begin

unbundle bit_operations_syntax

section \<open>GameLib.Audio: the mixer of \<^verbatim>\<open>src/trunk/Mixer.cs\<close>\<close>

text \<open>
  A shallow embedding of the C\# classes \<^verbatim>\<open>AudioSource\<close>, \<^verbatim>\<open>Channel\<close> and \<^verbatim>\<open>Mixer\<close>.
  Objects become records, the static fields of \<^verbatim>\<open>Mixer\<close> one record of global state,
  every \<^verbatim>\<open>throw\<close> a value \<open>Inl e\<close>, and every method a function that returns the
  state it leaves behind, also when it throws.  The locks are not modelled: each
  method runs alone from its first statement to its last.
\<close>

subsection \<open>Machine arithmetic\<close>

text \<open>
  C\# \<^verbatim>\<open>int\<close> and \<^verbatim>\<open>uint\<close> values are HOL integers; the wrap-around of unchecked
  32-bit arithmetic and the casts between the two types are written out with
  \<open>int32\<close> and \<open>uint32\<close>.
\<close>

definition int32 :: "int \<Rightarrow> int" where
  "int32 x = (x + 2147483648) mod 4294967296 - 2147483648"

definition uint32 :: "int \<Rightarrow> int" where
  "uint32 x = x mod 4294967296"

definition uint16 :: "int \<Rightarrow> int" where
  "uint16 x = x mod 65536"

definition uint8 :: "int \<Rightarrow> int" where
  "uint8 x = x mod 256"

text \<open>Integer division of C\#: the quotient is truncated towards zero.\<close>

definition quot :: "int \<Rightarrow> int \<Rightarrow> int" where
  "quot a b = (if (a < 0) = (b < 0) then \<bar>a\<bar> div \<bar>b\<bar> else - (\<bar>a\<bar> div \<bar>b\<bar>))"

text \<open>Shifts of \<^verbatim>\<open>int\<close>: the count is taken modulo 32, \<^verbatim>\<open>>>\<close> is arithmetic.\<close>

definition shr32 :: "int \<Rightarrow> int \<Rightarrow> int" where
  "shr32 x s = drop_bit (nat (s mod 32)) x"

definition shl32 :: "int \<Rightarrow> int \<Rightarrow> int" where
  "shl32 x s = int32 (push_bit (nat (s mod 32)) x)"

subsection \<open>Exceptions\<close>

datatype error =
    InvalidOperationException string
  | ArgumentOutOfRangeException string
  | ArgumentException string
  | NotImplementedException string
  | NotSupportedException string
  | ArgumentNullException
  | NullReferenceException
  | IndexOutOfRangeException
  | DivideByZeroException
  | OverflowException
  | GLMixerException

text \<open>\<^verbatim>\<open>a / b\<close> on \<^verbatim>\<open>int\<close>, with the two exceptions the runtime raises.\<close>

definition div32 :: "int \<Rightarrow> int \<Rightarrow> error + int" where
  "div32 a b =
     (if b = 0 then Inl DivideByZeroException
      else if a = - 2147483648 \<and> b = - 1 then Inl OverflowException
      else Inr (quot a b))"

subsection \<open>Enumerations and constants\<close>

datatype AudioStatus = Stopped | Playing | Paused
datatype Fade = FadeNone | FadeIn | FadeOut
datatype PlayPolicy = Fail | Oldest | Priority | OldestPriority
datatype MixPolicy = DontDivide | Divide

definition Infinite :: int where "Infinite = - 1"
definition FreeChannel :: int where "FreeChannel = - 1"
definition MaxVolume :: int where "MaxVolume = 256"

subsection \<open>AudioFormat and the native mixer library\<close>

record AudioFormat =
  Frequency :: int
  Format :: int
  Channels :: int

text \<open>
  The fields of \<^verbatim>\<open>GLMixer.AudioCVT\<close> that \<^verbatim>\<open>Mixer.cs\<close> reads and writes;
  \<^verbatim>\<open>new GLMixer.AudioCVT()\<close> is the all-zero struct.
\<close>

record AudioCVT =
  lenMul :: int
  lenDiv :: int
  srcRate :: int
  srcFormat :: int
  srcChans :: int
  destRate :: int
  destFormat :: int
  destChans :: int

definition new_AudioCVT :: AudioCVT where
  "new_AudioCVT = \<lparr>lenMul = 0, lenDiv = 0, srcRate = 0, srcFormat = 0, srcChans = 0,
     destRate = 0, destFormat = 0, destChans = 0\<rparr>"

text \<open>
  The interop class \<^verbatim>\<open>GLMixer\<close> is not part of the sources.  What \<^verbatim>\<open>Mixer.cs\<close> uses
  of it is a parameter of the model: the two constants of \<^verbatim>\<open>GLMixer.Format\<close>, the
  native \<^verbatim>\<open>SetupCVT\<close> (\<open>None\<close> is a return code for which \<^verbatim>\<open>GLMixer.Check\<close> throws,
  here \<open>GLMixerException\<close>), and the outcome of \<^verbatim>\<open>Mixer.Convert\<close> on the conversion buffer,
  which is computed by the native converter: from the two formats, the length of the
  buffer and the number of bytes read, the length of the array it returns and the
  number of converted bytes in it.
\<close>

record GLMixer =
  BitsPart :: int
  MixerFormat :: int
  SetupCVT :: "AudioCVT \<Rightarrow> AudioCVT option"
  Convert :: "AudioFormat \<Rightarrow> AudioFormat \<Rightarrow> int \<Rightarrow> int \<Rightarrow> error + (int \<times> int)"

definition SampleSize :: "GLMixer \<Rightarrow> AudioFormat \<Rightarrow> int" where
  "SampleSize glm f = uint8 (shr32 (Format f AND BitsPart glm) 3)"

definition FrameSize :: "GLMixer \<Rightarrow> AudioFormat \<Rightarrow> int" where
  "FrameSize glm f = uint8 (SampleSize glm f * Channels f)"

subsection \<open>Argument checks of the Mixer class\<close>

definition CheckRate :: "real \<Rightarrow> error + unit" where
  "CheckRate rate =
     (if rate < 0 then Inl (ArgumentOutOfRangeException ''PlaybackRate'') else Inr ())"

definition CheckVolume :: "int \<Rightarrow> error + unit" where
  "CheckVolume volume =
     (if volume < 0 \<or> volume > MaxVolume then Inl (ArgumentOutOfRangeException ''value'')
      else Inr ())"

subsection \<open>Mixer.SetupCVT\<close>

text \<open>
  The statements of the method in their order.  The first \<^verbatim>\<open>if\<close> has no \<^verbatim>\<open>return\<close>
  and no \<^verbatim>\<open>else\<close>: control goes on to the second.
\<close>

definition Mixer_SetupCVT :: "GLMixer \<Rightarrow> AudioFormat \<Rightarrow> AudioFormat \<Rightarrow> error + AudioCVT" where
  "Mixer_SetupCVT glm srcF destF =
     (let cvt = new_AudioCVT;
          cvt = (if srcF = destF then cvt\<lparr>lenMul := 1, lenDiv := 1\<rparr> else cvt)
      in if Format srcF = MixerFormat glm \<and> Format destF = MixerFormat glm
         then Inl (NotImplementedException ''Can't convert between two different mixer formats'')
         else if Format srcF = MixerFormat glm
         then Inr (cvt\<lparr>lenMul := SampleSize glm destF, lenDiv := 4\<rparr>)
         else if Format destF = MixerFormat glm
         then Inr (cvt\<lparr>lenMul := 4, lenDiv := SampleSize glm destF\<rparr>)
         else (case SetupCVT glm
                       (cvt\<lparr>srcRate := int32 (Frequency srcF), srcFormat := Format srcF,
                            srcChans := Channels srcF, destRate := int32 (Frequency destF),
                            destFormat := Format destF, destChans := Channels destF\<rparr>) of
                 None \<Rightarrow> Inl GLMixerException
               | Some cvt \<Rightarrow> Inr cvt))"

subsection \<open>AudioSource\<close>

text \<open>
  The fields of the abstract class, with the three abstract properties
  \<^verbatim>\<open>CanRewind\<close>, \<^verbatim>\<open>CanSeek\<close> and \<^verbatim>\<open>Position\<close> as fields of the object: the first two
  never change, and a subclass stores the position it is given.  Rates are C\#
  \<^verbatim>\<open>float\<close>s, modelled as real numbers.  A source is an object shared between the
  caller and the channels that play it, so sources live in a heap and a channel holds
  the address of its source.
\<close>

record AudioSource =
  CanRewind :: bool
  CanSeek :: bool
  src_Position :: int
  src_format :: AudioFormat
  src_rate :: real
  src_volume :: int
  src_length :: int
  src_priority :: int
  playing :: int

definition AudioSource_set_Volume :: "int \<Rightarrow> AudioSource \<Rightarrow> (error + unit) \<times> AudioSource" where
  "AudioSource_set_Volume v src =
     (case CheckVolume v of Inl e \<Rightarrow> (Inl e, src)
      | Inr _ \<Rightarrow> (Inr (), src\<lparr>src_volume := v\<rparr>))"

text \<open>\<^verbatim>\<open>set { Mixer.CheckRate(rate); lock(this) rate=value; }\<close>: the argument of
  \<^verbatim>\<open>CheckRate\<close> is the field.\<close>

definition AudioSource_set_PlaybackRate :: "real \<Rightarrow> AudioSource \<Rightarrow> (error + unit) \<times> AudioSource" where
  "AudioSource_set_PlaybackRate v src =
     (case CheckRate (src_rate src) of Inl e \<Rightarrow> (Inl e, src)
      | Inr _ \<Rightarrow> (Inr (), src\<lparr>src_rate := v\<rparr>))"

subsection \<open>Channel and the global state\<close>

text \<open>
  An event (\<^verbatim>\<open>Filters\<close>, \<^verbatim>\<open>Finished\<close>, \<^verbatim>\<open>ChannelFinished\<close>) is the list of its handlers,
  \<^verbatim>\<open>null\<close> being the empty list.  A handler is a name; calling it appends the call to
  a trace and does nothing else.  \<^verbatim>\<open>convBuf\<close> is the length of the byte array, or
  \<open>None\<close> for \<^verbatim>\<open>null\<close>.
\<close>

type_synonym handler = nat

datatype event = Finished_call handler int | ChannelFinished_call handler int

record Channel =
  source :: "nat option"
  convBuf :: "int option"
  rate :: real
  startTime :: int
  fadeStart :: int
  fadeTime :: int
  volume :: int
  fadeVolume :: int
  timeout :: int
  number :: int
  position :: int
  loops :: int
  priority :: int
  sdMul :: int
  sdDiv :: int
  fade :: Fade
  paused :: bool
  convert :: bool
  Filters :: "handler list"
  Finished :: "handler list"

text \<open>
  The static fields of \<^verbatim>\<open>Mixer\<close>, the heap of sources, the clock \<^verbatim>\<open>Timing.Ticks\<close> and
  the trace of handler calls.  \<^verbatim>\<open>chans\<close> and \<^verbatim>\<open>groups\<close> are \<^verbatim>\<open>null\<close> exactly when
  \<^verbatim>\<open>init\<close> is false (\<^verbatim>\<open>Initialize\<close> and \<^verbatim>\<open>Deinitialize\<close> set the three together); the
  model keeps the flag and the contents of the arrays.  A slot of \<^verbatim>\<open>chans\<close> or of
  \<^verbatim>\<open>groups\<close> holds an object or \<^verbatim>\<open>null\<close>.
\<close>

record World =
  init :: bool
  format :: AudioFormat
  chans :: "Channel option list"
  groups :: "int list option list"
  reserved :: int
  playPolicy :: PlayPolicy
  mixPolicy :: MixPolicy
  eFilters :: "handler list"
  ChannelFinished :: "handler list"
  heap :: "nat \<Rightarrow> AudioSource"
  Ticks :: int
  calls :: "event list"

definition new_Channel :: "int \<Rightarrow> Channel" where
  "new_Channel channel =
     \<lparr>source = None, convBuf = None, rate = 1, startTime = 0, fadeStart = 0, fadeTime = 0,
      volume = MaxVolume, fadeVolume = 0, timeout = 0, number = channel, position = 0,
      loops = 0, priority = 0, sdMul = 0, sdDiv = 0, fade = FadeNone, paused = False,
      convert = False, Filters = [], Finished = []\<rparr>"

definition CheckInit :: "World \<Rightarrow> error + unit" where
  "CheckInit w =
     (if init w then Inr ()
      else Inl (InvalidOperationException ''Mixer has not been initialized.''))"

definition Mixer_Format :: "World \<Rightarrow> error + AudioFormat" where
  "Mixer_Format w = (case CheckInit w of Inl e \<Rightarrow> Inl e | Inr _ \<Rightarrow> Inr (format w))"

definition Channel_Age :: "Channel \<Rightarrow> World \<Rightarrow> int" where
  "Channel_Age ch w = (if source ch = None then 0 else uint32 (Ticks w - startTime ch))"

definition Channel_Status :: "Channel \<Rightarrow> AudioStatus" where
  "Channel_Status ch =
     (if source ch = None then Stopped else if paused ch then Paused else Playing)"

definition EffectiveVolume :: "Channel \<Rightarrow> AudioSource \<Rightarrow> int" where
  "EffectiveVolume ch src =
     (let v = src_volume src
      in if v = MaxVolume then volume ch else shr32 (int32 (volume ch * v)) 8)"

definition EffectiveRate :: "Channel \<Rightarrow> AudioSource \<Rightarrow> real" where
  "EffectiveRate ch src = src_rate src * rate ch"

definition Channel_set_Volume :: "int \<Rightarrow> Channel \<Rightarrow> (error + unit) \<times> Channel" where
  "Channel_set_Volume v ch =
     (case CheckVolume v of Inl e \<Rightarrow> (Inl e, ch) | Inr _ \<Rightarrow> (Inr (), ch\<lparr>volume := v\<rparr>))"

definition Channel_set_PlaybackRate :: "real \<Rightarrow> Channel \<Rightarrow> (error + unit) \<times> Channel" where
  "Channel_set_PlaybackRate v ch =
     (case CheckRate (rate ch) of Inl e \<Rightarrow> (Inl e, ch) | Inr _ \<Rightarrow> (Inr (), ch\<lparr>rate := v\<rparr>))"

definition Channel_Pause :: "Channel \<Rightarrow> Channel" where
  "Channel_Pause ch = ch\<lparr>paused := True\<rparr>"

definition Channel_Resume :: "Channel \<Rightarrow> Channel" where
  "Channel_Resume ch = ch\<lparr>paused := False\<rparr>"

definition Channel_FadeOut :: "int \<Rightarrow> Channel \<Rightarrow> World \<Rightarrow> Channel" where
  "Channel_FadeOut fadeMs ch w =
     (case source ch of None \<Rightarrow> ch
      | Some s \<Rightarrow> ch\<lparr>fade := FadeOut, fadeTime := fadeMs, fadeStart := Ticks w,
                     fadeVolume := EffectiveVolume ch (heap w s)\<rparr>)"

text \<open>The handler calls of \<^verbatim>\<open>StopPlaying\<close>: \<^verbatim>\<open>Finished(this)\<close>, then
  \<^verbatim>\<open>Mixer.OnChannelFinished(this)\<close>.\<close>

definition OnChannelFinished :: "Channel \<Rightarrow> World \<Rightarrow> World" where
  "OnChannelFinished ch w =
     w\<lparr>calls := calls w @ map (\<lambda>h. ChannelFinished_call h (number ch)) (ChannelFinished w)\<rparr>"

text \<open>The calls that one run of \<^verbatim>\<open>StopPlaying\<close> on a playing channel adds to the
  trace, in their order.\<close>

definition finished_calls :: "Channel \<Rightarrow> World \<Rightarrow> event list" where
  "finished_calls ch w =
     map (\<lambda>h. Finished_call h (number ch)) (Finished ch)
     @ map (\<lambda>h. ChannelFinished_call h (number ch)) (ChannelFinished w)"

definition Channel_StopPlaying :: "Channel \<Rightarrow> World \<Rightarrow> Channel \<times> World" where
  "Channel_StopPlaying ch w =
     (case source ch of None \<Rightarrow> (ch, w)
      | Some s \<Rightarrow>
          (ch\<lparr>source := None\<rparr>,
           OnChannelFinished ch
             (w\<lparr>calls := calls w @ map (\<lambda>h. Finished_call h (number ch)) (Finished ch)\<rparr>)))"

definition Channel_Stop :: "Channel \<Rightarrow> World \<Rightarrow> Channel \<times> World" where
  "Channel_Stop ch w = Channel_StopPlaying ch w"

text \<open>The two exceptions of \<^verbatim>\<open>Channel.StartPlaying\<close>.\<close>

abbreviation loop_error :: error where
  "loop_error \<equiv> ArgumentException ''Can't play loop sources that can't be rewound''"

abbreviation unseekable_error :: error where
  "unseekable_error \<equiv> ArgumentException ''Can't play unseekable streams more than once at a time''"

definition Channel_StartPlaying ::
  "GLMixer \<Rightarrow> nat \<Rightarrow> int \<Rightarrow> Fade \<Rightarrow> int \<Rightarrow> int \<Rightarrow> Channel \<Rightarrow> World
     \<Rightarrow> (error + unit) \<times> Channel \<times> World" where
  "Channel_StartPlaying glm s lps fd fadeMs timeoutMs ch0 w0 =
     (let (ch, w) = Channel_StopPlaying ch0 w0; src = heap w s
      in if \<not> CanRewind src \<and> lps \<noteq> 0
         then (Inl loop_error, ch, w)
         else if \<not> CanSeek src \<and> playing src > 0
         then (Inl unseekable_error, ch, w)
         else
           let ch = ch\<lparr>source := Some s, loops := lps, fade := fd, timeout := timeoutMs,
                       priority := src_priority src, position := 0, paused := False,
                       startTime := Ticks w\<rparr>;
               src = src\<lparr>playing := int32 (playing src + 1)\<rparr>;
               w = w\<lparr>heap := fun_upd (heap w) s src\<rparr>
           in case Mixer_Format w of Inl e \<Rightarrow> (Inl e, ch, w)
              | Inr mf \<Rightarrow>
                  let ch = ch\<lparr>convert := (src_format src \<noteq> mf)\<rparr>
                  in (case (if convert ch
                            then (case Mixer_SetupCVT glm (src_format src) mf of
                                    Inl e \<Rightarrow> Inl e
                                  | Inr cvt \<Rightarrow> Inr (ch\<lparr>sdMul := lenMul cvt, sdDiv := lenDiv cvt\<rparr>))
                            else Inr (ch\<lparr>convBuf := None\<rparr>)) of
                        Inl e \<Rightarrow> (Inl e, ch, w)
                      | Inr ch \<Rightarrow>
                          if fd \<noteq> FadeNone
                          then (Inr (),
                                ch\<lparr>fadeTime := fadeMs,
                                   fadeVolume := (if fd = FadeIn then 0 else EffectiveVolume ch src),
                                   fadeStart := Ticks w\<rparr>, w)
                          else (Inr (), ch, w)))"

subsection \<open>Channel.Mix\<close>

text \<open>
  What a mix pass does to the accumulator \<^verbatim>\<open>stream\<close> is the list of the calls that
  write to it, each with the volume it is given: \<^verbatim>\<open>GLMixer.ConvertMix\<close> (samples,
  format, volume), \<^verbatim>\<open>GLMixer.Mix\<close> (samples, volume) and \<^verbatim>\<open>source.ReadFrames\<close> on the
  stream (frames, volume).  The data read from a source is not modelled: the reads of
  one pass are a script, one entry per call of \<^verbatim>\<open>ReadBytes\<close> or \<^verbatim>\<open>ReadFrames\<close>, giving
  the value the call returns and the position of the source after it.  A pass that
  asks for more reads than the script holds has no result (\<open>None\<close>).
\<close>

datatype mix_call = ConvertMix_call int int int | Mix_call int int | ReadFrames_call int int

fun scale :: "mix_call \<Rightarrow> int" where
  "scale (ConvertMix_call n f v) = v"
| "scale (Mix_call n v) = v"
| "scale (ReadFrames_call n v) = v"

definition set_Position :: "nat \<Rightarrow> int \<Rightarrow> World \<Rightarrow> World" where
  "set_Position s p w = w\<lparr>heap := fun_upd (heap w) s ((heap w s)\<lparr>src_Position := p\<rparr>)\<rparr>"

text \<open>The block \<^verbatim>\<open>if(fade!=Fade.None) ...\<close>: the volume of this pass, or \<open>None\<close> when
  a fade-out is over and the caller stops the channel.\<close>

definition Mix_fade :: "int \<Rightarrow> Channel \<Rightarrow> World \<Rightarrow> error + (int option \<times> Channel)" where
  "Mix_fade vol ch w =
     (if fade ch = FadeNone then Inr (Some vol, ch)
      else
        let fadeSoFar = uint32 (Ticks w - fadeStart ch);
            target = (if fade ch = FadeIn then vol else 0)
        in if fadeSoFar > fadeTime ch
           then (if fade ch = FadeOut then Inr (None, ch)
                 else Inr (Some target, ch\<lparr>fade := FadeNone\<rparr>))
           else (case div32 (int32 (int32 (target - fadeVolume ch) * int32 fadeSoFar))
                            (int32 (fadeTime ch)) of
                   Inl e \<Rightarrow> Inl e
                 | Inr q \<Rightarrow> Inr (Some (int32 (fadeVolume ch + q)), ch)))"

text \<open>The block that computes \<^verbatim>\<open>toRead\<close>: \<open>None\<close> is the \<^verbatim>\<open>return\<close> at a frequency
  of zero, otherwise \<^verbatim>\<open>toRead\<close>, the local \<^verbatim>\<open>format\<close> and \<^verbatim>\<open>convert\<close>, and the channel
  with its conversion buffer (\<^verbatim>\<open>new byte[len]\<close> throws for a negative length).  The
  product of the frequency and the rate is taken in the reals and truncated.\<close>

definition Mix_toRead ::
  "GLMixer \<Rightarrow> int \<Rightarrow> real \<Rightarrow> AudioFormat \<Rightarrow> Channel \<Rightarrow> World
     \<Rightarrow> error + (int \<times> AudioFormat \<times> bool \<times> Channel) option" where
  "Mix_toRead glm frames r fmt ch w =
     (if convert ch \<or> r \<noteq> 1
      then (case Mixer_Format w of Inl e \<Rightarrow> Inl e
            | Inr mf \<Rightarrow>
                let len = int32 (frames * FrameSize glm mf)
                in (case (if r = 1
                          then (case div32 (int32 (len * sdDiv ch)) (sdMul ch) of
                                  Inl e \<Rightarrow> Inl e
                                | Inr t \<Rightarrow> Inr (Some (t, fmt, convert ch)))
                          else
                            let shift = FrameSize glm fmt;
                                fmt = fmt\<lparr>Frequency :=
                                        uint32 (quot (uint32 \<lfloor>real_of_int (Frequency fmt) * r\<rfloor>) 50 * 50)\<rparr>
                            in if Frequency fmt = 0 then Inr None
                               else (case Mixer_SetupCVT glm fmt mf of Inl e \<Rightarrow> Inl e
                                     | Inr cvt \<Rightarrow>
                                         (case div32 (int32 (len * lenDiv cvt)) (lenMul cvt) of
                                            Inl e \<Rightarrow> Inl e
                                          | Inr q \<Rightarrow>
                                              Inr (Some (shl32 (shr32 (int32 (q + shift)) shift) shift,
                                                         fmt, True))))) of
                      Inl e \<Rightarrow> Inl e
                    | Inr None \<Rightarrow> Inr None
                    | Inr (Some (toRead, fmt, conv)) \<Rightarrow>
                        let len = max toRead len
                        in if (case convBuf ch of None \<Rightarrow> True | Some n \<Rightarrow> n < len)
                           then (if len < 0 then Inl OverflowException
                                 else Inr (Some (toRead, fmt, conv, ch\<lparr>convBuf := Some len\<rparr>)))
                           else Inr (Some (toRead, fmt, conv, ch))))
      else Inr (Some (frames, fmt, convert ch, ch)))"

text \<open>The first half of the loop body, after the source has returned \<open>read\<close>: the
  calls on the accumulator, and the channel (whose buffer \<^verbatim>\<open>Mixer.Convert\<close> may have
  replaced).\<close>

definition Mix_read ::
  "GLMixer \<Rightarrow> AudioFormat \<Rightarrow> bool \<Rightarrow> bool \<Rightarrow> int \<Rightarrow> int \<Rightarrow> int \<Rightarrow> Channel \<Rightarrow> World
     \<Rightarrow> (error + mix_call list) \<times> Channel" where
  "Mix_read glm fmt conv nofilters vol toRead read ch w =
     (if conv
      then (case Mixer_Format w of Inl e \<Rightarrow> (Inl e, ch)
            | Inr mf \<Rightarrow>
                (case convBuf ch of None \<Rightarrow> (Inl NullReferenceException, ch)
                 | Some n \<Rightarrow>
                     (case Convert glm fmt mf n read of Inl e \<Rightarrow> (Inl e, ch)
                      | Inr (arrlen, salen) \<Rightarrow>
                          (case div32 salen (FrameSize glm mf) of
                             Inl e \<Rightarrow> (Inl e, ch\<lparr>convBuf := Some arrlen\<rparr>)
                           | Inr framesRead \<Rightarrow>
                               let samples = int32 (framesRead * Channels mf)
                               in (Inr [if nofilters
                                        then ConvertMix_call (uint32 samples) (uint16 (Format mf))
                                               (uint16 vol)
                                        else Mix_call (uint32 samples) (uint16 vol)],
                                   ch\<lparr>convBuf := Some arrlen\<rparr>)))))
      else if nofilters then (Inr [ReadFrames_call toRead vol], ch)
      else if read > 0
      then (case Mixer_Format w of Inl e \<Rightarrow> (Inl e, ch)
            | Inr mf \<Rightarrow> (Inr [Mix_call (uint32 (int32 (read * Channels mf))) (uint16 vol)], ch))
      else (Inr [], ch))"

text \<open>The loop \<^verbatim>\<open>while(true)\<close> and the assignment after it, by recursion on the
  script of reads.\<close>

fun Mix_loop ::
  "GLMixer \<Rightarrow> AudioFormat \<Rightarrow> bool \<Rightarrow> bool \<Rightarrow> int \<Rightarrow> nat \<Rightarrow> (int \<times> int) list \<Rightarrow> int
     \<Rightarrow> mix_call list \<Rightarrow> Channel \<Rightarrow> World
     \<Rightarrow> ((error + unit) \<times> mix_call list \<times> Channel \<times> World) option" where
  "Mix_loop glm fmt conv nofilters vol s [] toRead acc ch w = None"
| "Mix_loop glm fmt conv nofilters vol s ((read, pos) # reads) toRead acc ch w =
     (let w = set_Position s pos w
      in (case Mix_read glm fmt conv nofilters vol toRead read ch w of
            (Inl e, ch) \<Rightarrow> Some (Inl e, acc, ch, w)
          | (Inr cs, ch) \<Rightarrow>
              let acc = acc @ cs; toRead = int32 (toRead - read)
              in if toRead \<le> 0
                 then Some (Inr (), acc, ch\<lparr>position := src_Position (heap w s)\<rparr>, w)
                 else if read = 0
                 then (if loops ch = 0
                       then (let (ch, w) = Channel_StopPlaying ch w in Some (Inr (), acc, ch, w))
                       else Mix_loop glm fmt conv nofilters vol s reads toRead acc
                              (ch\<lparr>position := 0,
                                  loops := (if loops ch = Infinite then loops ch
                                            else int32 (loops ch - 1))\<rparr>)
                              (set_Position s 0 w))
                 else Mix_loop glm fmt conv nofilters vol s reads toRead acc ch w))"

definition Channel_Mix ::
  "GLMixer \<Rightarrow> int \<Rightarrow> handler list \<Rightarrow> (int \<times> int) list \<Rightarrow> Channel \<Rightarrow> World
     \<Rightarrow> ((error + unit) \<times> mix_call list \<times> Channel \<times> World) option" where
  "Channel_Mix glm frames filters reads ch w =
     (case source ch of None \<Rightarrow> Some (Inr (), [], ch, w)
      | Some s \<Rightarrow>
          if paused ch then Some (Inr (), [], ch, w)
          else
            let src = heap w s; fmt = src_format src; r = EffectiveRate ch src;
                vol = EffectiveVolume ch src
            in if timeout ch \<noteq> Infinite \<and> Channel_Age ch w > timeout ch
               then (let (ch, w) = Channel_StopPlaying ch w in Some (Inr (), [], ch, w))
               else (case Mix_fade vol ch w of
                       Inl e \<Rightarrow> Some (Inl e, [], ch, w)
                     | Inr (None, ch) \<Rightarrow>
                         (let (ch, w) = Channel_StopPlaying ch w in Some (Inr (), [], ch, w))
                     | Inr (Some vol, ch) \<Rightarrow>
                         let w = (if CanSeek src then set_Position s (position ch) w else w)
                         in (case Mix_toRead glm frames r fmt ch w of
                               Inl e \<Rightarrow> Some (Inl e, [], ch, w)
                             | Inr None \<Rightarrow> Some (Inr (), [], ch, w)
                             | Inr (Some (toRead, fmt, conv, ch)) \<Rightarrow>
                                 Mix_loop glm fmt conv (Filters ch = [] \<and> filters = [])
                                   vol s reads toRead [] ch w)))"

subsection \<open>Mixer: reserved channels, the channel array, groups\<close>

definition CheckChannel :: "int \<Rightarrow> World \<Rightarrow> error + unit" where
  "CheckChannel channel w =
     (case CheckInit w of Inl e \<Rightarrow> Inl e
      | Inr _ \<Rightarrow>
          if channel \<noteq> FreeChannel \<and> channel < 0
          then Inl (ArgumentOutOfRangeException ''channel'') else Inr ())"

text \<open>\<^verbatim>\<open>set { CheckInit(); if(reserved<0 || reserved>chans.Length) throw ...; reserved=value; }\<close>:
  the test reads the field \<^verbatim>\<open>reserved\<close>.\<close>

definition Mixer_set_ReservedChannels :: "int \<Rightarrow> World \<Rightarrow> (error + unit) \<times> World" where
  "Mixer_set_ReservedChannels v w =
     (case CheckInit w of Inl e \<Rightarrow> (Inl e, w)
      | Inr _ \<Rightarrow>
          if reserved w < 0 \<or> reserved w > int (length (chans w))
          then (Inl (ArgumentOutOfRangeException ''value''), w)
          else (Inr (), w\<lparr>reserved := v\<rparr>))"

text \<open>\<^verbatim>\<open>chans[i]\<close> followed by a member access, and \<^verbatim>\<open>lock(chans[i])\<close>, which differ in
  the exception a \<^verbatim>\<open>null\<close> slot raises.\<close>

definition chan_at :: "World \<Rightarrow> int \<Rightarrow> error + Channel" where
  "chan_at w i =
     (if i < 0 \<or> int (length (chans w)) \<le> i then Inl IndexOutOfRangeException
      else (case chans w ! nat i of None \<Rightarrow> Inl NullReferenceException | Some c \<Rightarrow> Inr c))"

definition lock_chan_at :: "World \<Rightarrow> int \<Rightarrow> error + Channel" where
  "lock_chan_at w i =
     (if i < 0 \<or> int (length (chans w)) \<le> i then Inl IndexOutOfRangeException
      else (case chans w ! nat i of None \<Rightarrow> Inl ArgumentNullException
            | Some c \<Rightarrow> Inr c))"

definition chan_put :: "World \<Rightarrow> int \<Rightarrow> Channel \<Rightarrow> World" where
  "chan_put w i c = w\<lparr>chans := list_update (chans w) (nat i) (Some c)\<rparr>"

text \<open>\<^verbatim>\<open>Array.Copy(sourceArray, destinationArray, length)\<close> of the runtime: the new
  contents of the destination, or the exception for a length that one of the arrays
  does not have.\<close>

definition Array_Copy :: "'a list \<Rightarrow> 'a list \<Rightarrow> int \<Rightarrow> error + 'a list" where
  "Array_Copy sourceArray destinationArray len =
     (if len < 0 then Inl (ArgumentOutOfRangeException ''length'')
      else if len > int (length sourceArray) then Inl (ArgumentException ''sourceArray'')
      else if len > int (length destinationArray) then Inl (ArgumentException ''destinationArray'')
      else Inr (take (nat len) sourceArray @ drop (nat len) destinationArray))"

text \<open>\<^verbatim>\<open>for(int i=numChannels; i<chans.Length; i++) chans[i].Stop();\<close>\<close>

fun stop_channels :: "nat list \<Rightarrow> World \<Rightarrow> (error + unit) \<times> World" where
  "stop_channels [] w = (Inr (), w)"
| "stop_channels (i # is) w =
     (case chan_at w (int i) of Inl e \<Rightarrow> (Inl e, w)
      | Inr c \<Rightarrow> (let (c, w) = Channel_Stop c w in stop_channels is (chan_put w (int i) c)))"

definition Mixer_AllocateChannels :: "int \<Rightarrow> World \<Rightarrow> (error + unit) \<times> World" where
  "Mixer_AllocateChannels numChannels w =
     (case CheckInit w of Inl e \<Rightarrow> (Inl e, w)
      | Inr _ \<Rightarrow>
          if numChannels < 0 then (Inl (ArgumentOutOfRangeException ''numChannels''), w)
          else (case stop_channels [nat numChannels ..< length (chans w)] w of
                  (Inl e, w) \<Rightarrow> (Inl e, w)
                | (Inr _, w) \<Rightarrow>
                    let narr = replicate (nat numChannels) None
                    in (case Array_Copy narr (chans w) (int (length (chans w))) of
                          Inl e \<Rightarrow> (Inl e, w)
                        | Inr old \<Rightarrow>
                            let w = w\<lparr>chans := old\<rparr>;
                                narr = fold (\<lambda>i a. list_update a i (Some (new_Channel (int i))))
                                         [length (chans w) ..< nat numChannels] narr;
                                w = w\<lparr>chans := narr\<rparr>
                            in (Inr (),
                                if numChannels < reserved w then w\<lparr>reserved := numChannels\<rparr>
                                else w))))"

text \<open>\<^verbatim>\<open>for(int i=0; i<groups.Count; i++) if(groups[i]==null) ...\<close>: the first empty slot
  at or after \<open>i\<close>.\<close>

fun first_null :: "nat \<Rightarrow> 'a option list \<Rightarrow> nat option" where
  "first_null i [] = None"
| "first_null i (g # gs) = (case g of None \<Rightarrow> Some i | Some _ \<Rightarrow> first_null (Suc i) gs)"

definition Mixer_AddGroup :: "World \<Rightarrow> (error + int) \<times> World" where
  "Mixer_AddGroup w =
     (case CheckInit w of Inl e \<Rightarrow> (Inl e, w)
      | Inr _ \<Rightarrow>
          (case first_null 0 (groups w) of
             Some i \<Rightarrow> (Inr (int i), w\<lparr>groups := list_update (groups w) i (Some [])\<rparr>)
           | None \<Rightarrow> (Inr (int (length (groups w))), w\<lparr>groups := groups w @ [Some []]\<rparr>)))"

definition ToGroup :: "int \<Rightarrow> int" where
  "ToGroup grp = int32 (int32 (- grp) - 2)"

definition GetGroup :: "int \<Rightarrow> World \<Rightarrow> error + int list" where
  "GetGroup grp w =
     (case CheckInit w of Inl e \<Rightarrow> Inl e
      | Inr _ \<Rightarrow>
          let index = ToGroup grp
          in if index < 0 \<or> index \<ge> int (length (groups w))
             then Inl (ArgumentException ''Invalid group ID'')
             else (case groups w ! nat (ToGroup grp) of
                     None \<Rightarrow> Inl (ArgumentException ''Invalid group ID'')
                   | Some l \<Rightarrow> Inr l))"

text \<open>\<^verbatim>\<open>RemoveGroup\<close>, \<^verbatim>\<open>UngroupChannel\<close> and \<^verbatim>\<open>GroupSize\<close> enter \<^verbatim>\<open>lock(groups)\<close> before
  anything calls \<^verbatim>\<open>CheckInit\<close>: before \<^verbatim>\<open>Initialize\<close> the list is \<^verbatim>\<open>null\<close> and the lock
  throws.\<close>

definition Mixer_RemoveGroup :: "int \<Rightarrow> World \<Rightarrow> (error + unit) \<times> World" where
  "Mixer_RemoveGroup grp w =
     (if init w
      then (case GetGroup grp w of Inl e \<Rightarrow> (Inl e, w)
            | Inr _ \<Rightarrow>
                (Inr (), w\<lparr>groups := list_update (groups w) (nat (ToGroup grp)) None\<rparr>))
      else (Inl ArgumentNullException, w))"

definition Mixer_GroupChannel :: "int \<Rightarrow> int \<Rightarrow> World \<Rightarrow> (error + unit) \<times> World" where
  "Mixer_GroupChannel channel grp w =
     (case CheckChannel channel w of Inl e \<Rightarrow> (Inl e, w)
      | Inr _ \<Rightarrow>
          (case GetGroup grp w of Inl e \<Rightarrow> (Inl e, w)
           | Inr l \<Rightarrow>
               if channel \<in> set l then (Inr (), w)
               else (Inr (), w\<lparr>groups := list_update (groups w) (nat (ToGroup grp))
                                            (Some (l @ [channel]))\<rparr>)))"

definition Mixer_UngroupChannel :: "int \<Rightarrow> int \<Rightarrow> World \<Rightarrow> (error + unit) \<times> World" where
  "Mixer_UngroupChannel channel grp w =
     (if init w
      then (case GetGroup grp w of Inl e \<Rightarrow> (Inl e, w)
            | Inr l \<Rightarrow> (Inr (), w\<lparr>groups := list_update (groups w) (nat (ToGroup grp))
                                             (Some (remove1 channel l))\<rparr>))
      else (Inl ArgumentNullException, w))"

definition Mixer_GroupSize :: "int \<Rightarrow> World \<Rightarrow> error + int" where
  "Mixer_GroupSize grp w =
     (if init w
      then (case GetGroup grp w of Inl e \<Rightarrow> Inl e | Inr l \<Rightarrow> Inr (int (length l)))
      else Inl ArgumentNullException)"

subsection \<open>Mixer.StartPlaying\<close>

text \<open>
  The channels a request looks at, in the order of the \<^verbatim>\<open>for\<close> loops: the indices
  from \<^verbatim>\<open>reserved\<close> to the end of the array for \<^verbatim>\<open>FreeChannel\<close>, otherwise the members
  of the group that the \<^verbatim>\<open>continue\<close> does not skip.
\<close>

definition candidates :: "int \<Rightarrow> World \<Rightarrow> error + int list" where
  "candidates channel w =
     (if channel = FreeChannel then Inr [reserved w .. int (length (chans w)) - 1]
      else (case GetGroup channel w of Inl e \<Rightarrow> Inl e
            | Inr l \<Rightarrow> Inr (filter (\<lambda>chan. \<not> chan < reserved w) l)))"

text \<open>One run of the \<^verbatim>\<open>for\<close> loop inside \<^verbatim>\<open>do ... while(!tried)\<close>: the status is read,
  \<^verbatim>\<open>tried\<close> is set, and the status is read again under the lock.  The result is the
  index returned from inside the loop, if any, and the flag.\<close>

fun StartPlaying_scan ::
  "GLMixer \<Rightarrow> nat \<Rightarrow> int \<Rightarrow> Fade \<Rightarrow> int \<Rightarrow> int \<Rightarrow> int list \<Rightarrow> bool \<Rightarrow> World
     \<Rightarrow> (error + int option) \<times> bool \<times> World" where
  "StartPlaying_scan glm s lps fd fadeMs timeoutMs [] tried w = (Inr None, tried, w)"
| "StartPlaying_scan glm s lps fd fadeMs timeoutMs (i # cs) tried w =
     (case chan_at w i of Inl e \<Rightarrow> (Inl e, tried, w)
      | Inr c \<Rightarrow>
          if Channel_Status c = Stopped
          then (case lock_chan_at w i of Inl e \<Rightarrow> (Inl e, True, w)
                | Inr c \<Rightarrow>
                    if Channel_Status c = Stopped
                    then (case Channel_StartPlaying glm s lps fd fadeMs timeoutMs c w of
                            (Inl e, c, w) \<Rightarrow> (Inl e, True, chan_put w i c)
                          | (Inr _, c, w) \<Rightarrow> (Inr (Some i), True, chan_put w i c))
                    else StartPlaying_scan glm s lps fd fadeMs timeoutMs cs True w)
          else StartPlaying_scan glm s lps fd fadeMs timeoutMs cs tried w)"

text \<open>The loop \<^verbatim>\<open>do ... while(!tried)\<close>.  Nothing bounds the number of its rounds, so
  it is a partial function: \<open>None\<close> is a call that does not return.\<close>

partial_function (option) StartPlaying_retry ::
  "GLMixer \<Rightarrow> int \<Rightarrow> nat \<Rightarrow> int \<Rightarrow> Fade \<Rightarrow> int \<Rightarrow> int \<Rightarrow> World
     \<Rightarrow> ((error + int option) \<times> World) option" where
  "StartPlaying_retry glm channel s lps fd fadeMs timeoutMs w =
     (case candidates channel w of Inl e \<Rightarrow> Some (Inl e, w)
      | Inr cs \<Rightarrow>
          (case StartPlaying_scan glm s lps fd fadeMs timeoutMs cs False w of
             (Inl e, tried, w) \<Rightarrow> Some (Inl e, w)
           | (Inr (Some i), tried, w) \<Rightarrow> Some (Inr (Some i), w)
           | (Inr None, tried, w) \<Rightarrow>
               if tried then Some (Inr None, w)
               else StartPlaying_retry glm channel s lps fd fadeMs timeoutMs w))"

declare StartPlaying_retry.simps [code]

text \<open>The victim of each play policy: the loops of the three \<^verbatim>\<open>case\<close>s.\<close>

fun oldest_of :: "World \<Rightarrow> int list \<Rightarrow> int \<Rightarrow> int \<Rightarrow> error + int" where
  "oldest_of w [] oi age = Inr oi"
| "oldest_of w (i # cs) oi age =
     (case chan_at w i of Inl e \<Rightarrow> Inl e
      | Inr c \<Rightarrow>
          if Channel_Age c w > age then oldest_of w cs i (Channel_Age c w)
          else oldest_of w cs oi age)"

fun lowest_of :: "World \<Rightarrow> int list \<Rightarrow> int \<Rightarrow> int \<Rightarrow> error + (int \<times> int)" where
  "lowest_of w [] pidx prio = Inr (pidx, prio)"
| "lowest_of w (i # cs) pidx prio =
     (case chan_at w i of Inl e \<Rightarrow> Inl e
      | Inr c \<Rightarrow>
          if priority c < prio then lowest_of w cs i (priority c)
          else lowest_of w cs pidx prio)"

fun oldest_with :: "World \<Rightarrow> int \<Rightarrow> int list \<Rightarrow> int \<Rightarrow> int \<Rightarrow> error + int" where
  "oldest_with w prio [] oi age = Inr oi"
| "oldest_with w prio (i # cs) oi age =
     (case chan_at w i of Inl e \<Rightarrow> Inl e
      | Inr c \<Rightarrow>
          if priority c = prio \<and> Channel_Age c w > age
          then oldest_with w prio cs i (Channel_Age c w)
          else oldest_with w prio cs oi age)"

definition victim :: "int list \<Rightarrow> World \<Rightarrow> error + int option" where
  "victim cs w =
     (case playPolicy w of
        Fail \<Rightarrow> Inr None
      | Oldest \<Rightarrow>
          (case oldest_of w cs (reserved w) 0 of Inl e \<Rightarrow> Inl e | Inr oi \<Rightarrow> Inr (Some oi))
      | Priority \<Rightarrow>
          (case lowest_of w cs (reserved w) 2147483647 of Inl e \<Rightarrow> Inl e
           | Inr (pidx, prio) \<Rightarrow> Inr (Some pidx))
      | OldestPriority \<Rightarrow>
          (case lowest_of w cs (reserved w) 2147483647 of Inl e \<Rightarrow> Inl e
           | Inr (pidx, prio) \<Rightarrow>
               (case oldest_with w prio cs pidx 0 of Inl e \<Rightarrow> Inl e | Inr oi \<Rightarrow> Inr (Some oi))))"

text \<open>\<^verbatim>\<open>lock(chans[i]) { chans[i].StartPlaying(...); return i; }\<close>\<close>

definition StartPlaying_on ::
  "GLMixer \<Rightarrow> int \<Rightarrow> nat \<Rightarrow> int \<Rightarrow> Fade \<Rightarrow> int \<Rightarrow> int \<Rightarrow> World \<Rightarrow> (error + int) \<times> World" where
  "StartPlaying_on glm i s lps fd fadeMs timeoutMs w =
     (case lock_chan_at w i of Inl e \<Rightarrow> (Inl e, w)
      | Inr c \<Rightarrow>
          (case Channel_StartPlaying glm s lps fd fadeMs timeoutMs c w of
             (Inl e, c, w) \<Rightarrow> (Inl e, chan_put w i c)
           | (Inr _, c, w) \<Rightarrow> (Inr i, chan_put w i c)))"

definition Mixer_StartPlaying ::
  "GLMixer \<Rightarrow> int \<Rightarrow> nat \<Rightarrow> int \<Rightarrow> Fade \<Rightarrow> int \<Rightarrow> int \<Rightarrow> World
     \<Rightarrow> ((error + int) \<times> World) option" where
  "Mixer_StartPlaying glm channel s lps fd fadeMs timeoutMs w =
     (case CheckInit w of Inl e \<Rightarrow> Some (Inl e, w)
      | Inr _ \<Rightarrow>
          if reserved w = int (length (chans w)) then Some (Inr (- 1), w)
          else (case StartPlaying_retry glm channel s lps fd fadeMs timeoutMs w of
                  None \<Rightarrow> None
                | Some (Inl e, w) \<Rightarrow> Some (Inl e, w)
                | Some (Inr (Some i), w) \<Rightarrow> Some (Inr i, w)
                | Some (Inr None, w) \<Rightarrow>
                    (case candidates channel w of Inl e \<Rightarrow> Some (Inl e, w)
                     | Inr cs \<Rightarrow>
                         (case victim cs w of Inl e \<Rightarrow> Some (Inl e, w)
                          | Inr None \<Rightarrow> Some (Inr (- 1), w)
                          | Inr (Some oi) \<Rightarrow>
                              Some (StartPlaying_on glm oi s lps fd fadeMs timeoutMs w)))))"

subsection \<open>AudioSource.Play and AudioSource.FadeIn\<close>

text \<open>The getter \<^verbatim>\<open>Mixer.Channels\<close> does not call \<^verbatim>\<open>CheckInit\<close>: before
  \<^verbatim>\<open>Initialize\<close> the array is \<^verbatim>\<open>null\<close>.\<close>

definition StartPlaying_channel ::
  "GLMixer \<Rightarrow> int \<Rightarrow> nat \<Rightarrow> int \<Rightarrow> Fade \<Rightarrow> int \<Rightarrow> int \<Rightarrow> World
     \<Rightarrow> ((error + int) \<times> World) option" where
  "StartPlaying_channel glm channel s lps fd fadeMs timeoutMs w =
     (if channel < 0 then Mixer_StartPlaying glm channel s lps fd fadeMs timeoutMs w
      else if init w then Some (StartPlaying_on glm channel s lps fd fadeMs timeoutMs w)
      else Some (Inl NullReferenceException, w))"

definition AudioSource_Play ::
  "GLMixer \<Rightarrow> nat \<Rightarrow> int \<Rightarrow> int \<Rightarrow> int \<Rightarrow> World \<Rightarrow> ((error + int) \<times> World) option" where
  "AudioSource_Play glm s lps timeoutMs channel w =
     StartPlaying_channel glm channel s lps FadeNone 0 timeoutMs w"

definition AudioSource_FadeIn ::
  "GLMixer \<Rightarrow> nat \<Rightarrow> int \<Rightarrow> int \<Rightarrow> int \<Rightarrow> int \<Rightarrow> World \<Rightarrow> ((error + int) \<times> World) option" where
  "AudioSource_FadeIn glm s fadeMs lps timeoutMs channel w =
     StartPlaying_channel glm channel s lps FadeIn fadeMs timeoutMs w"

subsection \<open>Sequences of calls\<close>

text \<open>
  A program that uses the mixer is a sequence of calls from its public surface, with
  the mix pass of one channel and the advance of the clock as two more steps.  A call
  that throws leaves the state it had reached and the sequence goes on (the caller
  catches the exception); a call that does not return ends the run without a state.
  A method of \<^verbatim>\<open>Mixer.Channels[i]\<close> is reached through the array: a bad index or an
  empty slot throws before the method runs.
\<close>

datatype op =
    Op_Play nat int int int
  | Op_FadeIn nat int int int int
  | Op_Stop int
  | Op_Pause int
  | Op_Resume int
  | Op_FadeOut int int
  | Op_Mix int int "(int \<times> int) list"
  | Op_ChannelVolume int int
  | Op_ChannelPlaybackRate int real
  | Op_ChannelPosition int int
  | Op_SourceVolume nat int
  | Op_SourcePlaybackRate nat real
  | Op_SourcePriority nat int
  | Op_AllocateChannels int
  | Op_ReservedChannels int
  | Op_AddGroup
  | Op_RemoveGroup int
  | Op_GroupChannel int int
  | Op_UngroupChannel int int
  | Op_Ticks int

definition on_channel :: "int \<Rightarrow> (Channel \<Rightarrow> Channel) \<Rightarrow> World \<Rightarrow> World" where
  "on_channel i f w =
     (if init w then (case chan_at w i of Inl e \<Rightarrow> w | Inr c \<Rightarrow> chan_put w i (f c)) else w)"

definition on_source :: "nat \<Rightarrow> (AudioSource \<Rightarrow> AudioSource) \<Rightarrow> World \<Rightarrow> World" where
  "on_source s f w = w\<lparr>heap := fun_upd (heap w) s (f (heap w s))\<rparr>"

fun exec :: "GLMixer \<Rightarrow> op \<Rightarrow> World \<Rightarrow> World option" where
  "exec glm (Op_Play s lps timeoutMs channel) w =
     map_option snd (AudioSource_Play glm s lps timeoutMs channel w)"
| "exec glm (Op_FadeIn s fadeMs lps timeoutMs channel) w =
     map_option snd (AudioSource_FadeIn glm s fadeMs lps timeoutMs channel w)"
| "exec glm (Op_Stop i) w =
     (if init w
      then (case chan_at w i of Inl e \<Rightarrow> Some w
            | Inr c \<Rightarrow> (let (c, w) = Channel_Stop c w in Some (chan_put w i c)))
      else Some w)"
| "exec glm (Op_Pause i) w = Some (on_channel i Channel_Pause w)"
| "exec glm (Op_Resume i) w = Some (on_channel i Channel_Resume w)"
| "exec glm (Op_FadeOut i fadeMs) w = Some (on_channel i (\<lambda>c. Channel_FadeOut fadeMs c w) w)"
| "exec glm (Op_Mix i frames reads) w =
     (if init w
      then (case chan_at w i of Inl e \<Rightarrow> Some w
            | Inr c \<Rightarrow>
                (case Channel_Mix glm frames (eFilters w) reads c w of None \<Rightarrow> None
                 | Some (r, cs, c, w) \<Rightarrow> Some (chan_put w i c)))
      else Some w)"
| "exec glm (Op_ChannelVolume i v) w = Some (on_channel i (\<lambda>c. snd (Channel_set_Volume v c)) w)"
| "exec glm (Op_ChannelPlaybackRate i v) w =
     Some (on_channel i (\<lambda>c. snd (Channel_set_PlaybackRate v c)) w)"
| "exec glm (Op_ChannelPosition i v) w = Some (on_channel i (\<lambda>c. c\<lparr>position := v\<rparr>) w)"
| "exec glm (Op_SourceVolume s v) w = Some (on_source s (\<lambda>src. snd (AudioSource_set_Volume v src)) w)"
| "exec glm (Op_SourcePlaybackRate s v) w =
     Some (on_source s (\<lambda>src. snd (AudioSource_set_PlaybackRate v src)) w)"
| "exec glm (Op_SourcePriority s v) w = Some (on_source s (\<lambda>src. src\<lparr>src_priority := v\<rparr>) w)"
| "exec glm (Op_AllocateChannels n) w = Some (snd (Mixer_AllocateChannels n w))"
| "exec glm (Op_ReservedChannels v) w = Some (snd (Mixer_set_ReservedChannels v w))"
| "exec glm Op_AddGroup w = Some (snd (Mixer_AddGroup w))"
| "exec glm (Op_RemoveGroup g) w = Some (snd (Mixer_RemoveGroup g w))"
| "exec glm (Op_GroupChannel c g) w = Some (snd (Mixer_GroupChannel c g w))"
| "exec glm (Op_UngroupChannel c g) w = Some (snd (Mixer_UngroupChannel c g w))"
| "exec glm (Op_Ticks t) w = Some (w\<lparr>Ticks := uint32 t\<rparr>)"

fun run :: "GLMixer \<Rightarrow> op list \<Rightarrow> World \<Rightarrow> World option" where
  "run glm [] w = Some w"
| "run glm (x # xs) w = (case exec glm x w of None \<Rightarrow> None | Some w \<Rightarrow> run glm xs w)"

subsection \<open>A small configuration\<close>

text \<open>
  Concrete values on which the theorems below are run: a native library whose
  converter keeps every length, a mixer initialised at 22050 Hz, 16 bit, stereo, and
  two sources in the format of the mixer, one of them a stream that can neither seek
  nor rewind.
\<close>

definition demo_glm :: GLMixer where
  "demo_glm = \<lparr>BitsPart = 24, MixerFormat = 32, SetupCVT = (\<lambda>cvt. Some (cvt\<lparr>lenMul := 1, lenDiv := 1\<rparr>)),
     Convert = (\<lambda>f g n r. Inr (n, r))\<rparr>"

definition demo_format :: AudioFormat where
  "demo_format = \<lparr>Frequency = 22050, Format = 32784, Channels = 2\<rparr>"

definition demo_source :: AudioSource where
  "demo_source = \<lparr>CanRewind = True, CanSeek = True, src_Position = 0, src_format = demo_format,
     src_rate = 1, src_volume = 256, src_length = 1000, src_priority = 0, playing = 0\<rparr>"

definition demo_stream :: AudioSource where
  "demo_stream = demo_source\<lparr>CanRewind := False, CanSeek := False\<rparr>"

definition demo_world :: World where
  "demo_world = \<lparr>init = True, format = demo_format, chans = [], groups = [], reserved = 0,
     playPolicy = Fail, mixPolicy = DontDivide, eFilters = [], ChannelFinished = [9],
     heap = (\<lambda>s. if s = 0 then demo_source else demo_stream), Ticks = 0, calls = []\<rparr>"

text \<open>A channel with one \<^verbatim>\<open>Finished\<close> handler that plays source 0 since time 0, and a
  world whose only channel it is.\<close>

definition demo_channel :: Channel where
  "demo_channel = (new_Channel 0)\<lparr>source := Some 0, timeout := Infinite, Finished := [7]\<rparr>"

definition demo_busy :: World where
  "demo_busy = demo_world\<lparr>chans := [Some demo_channel]\<rparr>"

text \<open>A world with one idle channel, and the world in which that channel plays the
  stream, source 1, which has been bound once.\<close>

definition demo_idle :: World where
  "demo_idle = demo_world\<lparr>chans := [Some (new_Channel 0)]\<rparr>"

definition demo_played :: World where
  "demo_played =
     demo_world\<lparr>chans := [Some ((new_Channel 0)\<lparr>source := Some 1, timeout := Infinite\<rparr>)],
                heap := (\<lambda>s. if s = 0 then demo_source else demo_stream\<lparr>playing := 1\<rparr>)\<rparr>"

subsection \<open>What a step may do to the counter of a source\<close>

text \<open>Between two states, the source \<open>s\<close> keeps its \<^verbatim>\<open>CanSeek\<close>, and its counter
  \<^verbatim>\<open>playing\<close> is unchanged or has gone through \<^verbatim>\<open>playing++\<close> once, the latter only
  past the test \<^verbatim>\<open>!source.CanSeek && source.playing>0\<close>.\<close>

definition counted :: "nat \<Rightarrow> World \<Rightarrow> World \<Rightarrow> bool" where
  "counted s w w' =
     (CanSeek (heap w' s) = CanSeek (heap w s)
      \<and> (playing (heap w' s) = playing (heap w s)
         \<or> ((CanSeek (heap w s) \<or> playing (heap w s) \<le> 0)
            \<and> playing (heap w' s) = int32 (playing (heap w s) + 1))))"

section \<open>Properties\<close>

subsection \<open>Admission under the Fail policy\<close>

lemma chan_at_lock: "chan_at w i = Inr c \<Longrightarrow> lock_chan_at w i = Inr c"
  by (auto simp: chan_at_def lock_chan_at_def split: if_splits option.splits)

text \<open>A run of the \<^verbatim>\<open>for\<close> loop that returns no index has changed nothing, and the
  flag \<^verbatim>\<open>tried\<close> is as it was.\<close>

lemma scan_idle:
  "StartPlaying_scan glm s lps fd fadeMs timeoutMs cs tried w = (Inr None, tried', w')
     \<Longrightarrow> tried' = tried \<and> w' = w"
  by (induction cs arbitrary: tried)
     (auto split: sum.splits if_splits prod.splits dest: chan_at_lock)

text \<open>So the loop never leaves through \<^verbatim>\<open>while(!tried)\<close>: the \<^verbatim>\<open>switch\<close> on the play
  policy is not reached.\<close>

lemma retry_never_falls_through:
  "StartPlaying_retry glm channel s lps fd fadeMs timeoutMs w = Some y \<Longrightarrow> fst y \<noteq> Inr None"
  apply (rule StartPlaying_retry.raw_induct
           [where P = "\<lambda>glm channel s lps fd fadeMs timeoutMs w y. fst y \<noteq> Inr None"])
   apply (auto split: sum.splits prod.splits option.splits if_splits dest: scan_idle)
  done

lemma scan_all_busy:
  "list_all (\<lambda>i. case chan_at w i of Inl e \<Rightarrow> False | Inr c \<Rightarrow> Channel_Status c \<noteq> Stopped) cs
     \<Longrightarrow> StartPlaying_scan glm s lps fd fadeMs timeoutMs cs tried w = (Inr None, tried, w)"
  by (induction cs) (auto split: sum.splits)

lemma retry_diverges:
  assumes "candidates channel w = Inr cs"
    and "StartPlaying_scan glm s lps fd fadeMs timeoutMs cs False w = (Inr None, False, w)"
  shows "StartPlaying_retry glm channel s lps fd fadeMs timeoutMs w = None"
proof -
  have "StartPlaying_retry glm' channel' s' lps' fd' fadeMs' timeoutMs' w' = Some y
          \<Longrightarrow> \<not> (candidates channel' w' = Inr cs \<and>
                  StartPlaying_scan glm' s' lps' fd' fadeMs' timeoutMs' cs False w'
                    = (Inr None, False, w'))"
    for glm' channel' s' lps' fd' fadeMs' timeoutMs' w' y
    apply (rule StartPlaying_retry.raw_induct
             [where P = "\<lambda>glm' channel' s' lps' fd' fadeMs' timeoutMs' w' y.
                \<not> (candidates channel' w' = Inr cs \<and>
                   StartPlaying_scan glm' s' lps' fd' fadeMs' timeoutMs' cs False w'
                     = (Inr None, False, w'))"])
     apply (auto split: sum.splits prod.splits option.splits if_splits)
    done
  with assms show ?thesis
    by (cases "StartPlaying_retry glm channel s lps fd fadeMs timeoutMs w") auto
qed

text \<open>A round of the loop that returns an index or throws ends the loop.\<close>

lemma retry_found:
  assumes "candidates channel w = Inr cs"
    and "StartPlaying_scan glm s lps fd fadeMs timeoutMs cs False w = (r, tried, w')"
    and "r \<noteq> Inr None"
  shows "StartPlaying_retry glm channel s lps fd fadeMs timeoutMs w = Some (r, w')"
  using assms
  by (subst StartPlaying_retry.simps) (auto split: sum.splits option.splits)

text \<open>
  C1, as the code has it.  One channel is allocated, none is reserved, the channel is
  playing, the policy is \<^verbatim>\<open>Fail\<close>: every candidate of a \<^verbatim>\<open>FreeChannel\<close> request is
  busy.  The call does not return \<open>-1\<close>: the loop \<^verbatim>\<open>do ... while(!tried)\<close> finds no
  stopped channel, leaves \<^verbatim>\<open>tried\<close> false and starts again, and the call has no
  result.
\<close>

theorem StartPlaying_Fail_all_busy_no_result:
  "Mixer_StartPlaying demo_glm FreeChannel 0 0 FadeNone 0 Infinite demo_busy = None"
proof -
  have c: "candidates FreeChannel demo_busy = Inr [0]"
    by (simp add: candidates_def demo_busy_def demo_world_def upto.simps)
  have "StartPlaying_scan demo_glm 0 0 FadeNone 0 Infinite [0] False demo_busy
          = (Inr None, False, demo_busy)"
    by (rule scan_all_busy)
       (simp add: chan_at_def demo_busy_def demo_world_def demo_channel_def Channel_Status_def)
  with c have "StartPlaying_retry demo_glm FreeChannel 0 0 FadeNone 0 Infinite demo_busy = None"
    by (rule retry_diverges)
  then show ?thesis
    by (simp add: Mixer_StartPlaying_def CheckInit_def demo_busy_def demo_world_def)
qed

subsection \<open>The channel array\<close>

text \<open>
  C2, as the code has it.  \<^verbatim>\<open>Array.Copy(narr, chans, chans.Length)\<close> copies from the
  new array into the old one.  From an empty array, \<^verbatim>\<open>AllocateChannels(1)\<close> gives one
  fresh channel; growing that array to two channels leaves slot 0 empty; and shrinking
  a one-channel array to none throws from \<^verbatim>\<open>Array.Copy\<close>.
\<close>

theorem AllocateChannels_loses_channels:
  "chans (snd (Mixer_AllocateChannels 1 demo_world)) = [Some (new_Channel 0)]
   \<and> chans (snd (Mixer_AllocateChannels 2 (snd (Mixer_AllocateChannels 1 demo_world))))
       = [None, Some (new_Channel 1)]
   \<and> fst (Mixer_AllocateChannels 0 demo_busy) = Inl (ArgumentException ''sourceArray'')"
  by (simp add: Mixer_AllocateChannels_def CheckInit_def demo_world_def demo_busy_def
        Array_Copy_def chan_at_def chan_put_def Channel_Stop_def Channel_StopPlaying_def
        OnChannelFinished_def demo_channel_def numeral_2_eq_2 upt_rec)

subsection \<open>Groups\<close>

text \<open>
  C3, as the code has it.  With no group yet, \<^verbatim>\<open>AddGroup\<close> returns the slot \<open>0\<close>, not
  the id \<open>-2\<close>, and \<^verbatim>\<open>GroupSize\<close> rejects the value it returned.
\<close>

theorem AddGroup_returns_slot:
  "Mixer_AddGroup demo_world = (Inr 0, demo_world\<lparr>groups := [Some []]\<rparr>)
   \<and> Mixer_GroupSize 0 (demo_world\<lparr>groups := [Some []]\<rparr>)
       = Inl (ArgumentException ''Invalid group ID'')"
  by (simp add: Mixer_AddGroup_def Mixer_GroupSize_def GetGroup_def ToGroup_def int32_def
        CheckInit_def demo_world_def)

subsection \<open>Reserved channels\<close>

text \<open>
  C4, as the code has it.  With no channel allocated and none reserved, assigning 5 to
  \<^verbatim>\<open>ReservedChannels\<close> throws nothing and stores 5: the setter tests the old value.
\<close>

theorem ReservedChannels_accepts_out_of_range:
  "Mixer_set_ReservedChannels 5 demo_world = (Inr (), demo_world\<lparr>reserved := 5\<rparr>)"
  by (simp add: Mixer_set_ReservedChannels_def CheckInit_def demo_world_def)

subsection \<open>Playback rates\<close>

text \<open>
  C5, as the code has it.  Assigning \<open>-1\<close> to the \<^verbatim>\<open>PlaybackRate\<close> of a source or of a
  channel whose rate is 1 throws nothing and stores \<open>-1\<close>; after that, assigning 1
  throws: both setters test the stored rate.
\<close>

theorem PlaybackRate_accepts_negative:
  "AudioSource_set_PlaybackRate (- 1) demo_source = (Inr (), demo_source\<lparr>src_rate := - 1\<rparr>)
   \<and> fst (AudioSource_set_PlaybackRate 1 (demo_source\<lparr>src_rate := - 1\<rparr>))
       = Inl (ArgumentOutOfRangeException ''PlaybackRate'')
   \<and> Channel_set_PlaybackRate (- 1) (new_Channel 0) = (Inr (), (new_Channel 0)\<lparr>rate := - 1\<rparr>)"
  by (simp add: AudioSource_set_PlaybackRate_def Channel_set_PlaybackRate_def CheckRate_def
        demo_source_def new_Channel_def)

subsection \<open>Conversion descriptors\<close>

text \<open>
  C8, as the code has it.  For two equal formats whose sample format is the mixer
  format, \<^verbatim>\<open>SetupCVT\<close> sets both lengths to 1 and then throws: the first \<^verbatim>\<open>if\<close> does not
  return.
\<close>

theorem SetupCVT_equal_mixer_formats_throws:
  "Mixer_SetupCVT demo_glm \<lparr>Frequency = 22050, Format = 32, Channels = 2\<rparr>
     \<lparr>Frequency = 22050, Format = 32, Channels = 2\<rparr>
   = Inl (NotImplementedException ''Can't convert between two different mixer formats'')"
  by (simp add: Mixer_SetupCVT_def demo_glm_def)

subsection \<open>Binding a source that cannot be rewound\<close>

lemma StopPlaying_heap: "Channel_StopPlaying ch w = (ch', w') \<Longrightarrow> heap w' = heap w"
  by (auto simp: Channel_StopPlaying_def OnChannelFinished_def split: option.splits)

lemma StopPlaying_idle: "source ch = None \<Longrightarrow> Channel_StopPlaying ch w = (ch, w)"
  by (simp add: Channel_StopPlaying_def)

lemma StopPlaying_source: "Channel_StopPlaying ch w = (ch', w') \<Longrightarrow> source ch' = None"
  by (auto simp: Channel_StopPlaying_def split: option.splits)

lemma SetupCVT_errors:
  "Mixer_SetupCVT glm a b = Inl e \<Longrightarrow>
     e = NotImplementedException ''Can't convert between two different mixer formats''
     \<or> e = GLMixerException"
  by (auto simp: Mixer_SetupCVT_def Let_def split: if_splits option.splits)

lemma Mixer_Format_errors:
  "Mixer_Format w = Inl e \<Longrightarrow> e = InvalidOperationException ''Mixer has not been initialized.''"
  by (auto simp: Mixer_Format_def CheckInit_def split: if_splits)

lemma StartPlaying_loop_error:
  assumes "\<not> CanRewind (heap w s)" "lps \<noteq> 0"
  shows "Channel_StartPlaying glm s lps fd fadeMs timeoutMs ch w
           = (Inl loop_error, Channel_StopPlaying ch w)"
proof (cases "Channel_StopPlaying ch w")
  case (Pair ch1 w1)
  with assms StopPlaying_heap[OF Pair] show ?thesis
    by (simp add: Channel_StartPlaying_def)
qed

lemma StartPlaying_no_loop_error:
  "fst (Channel_StartPlaying glm s 0 fd fadeMs timeoutMs ch w) \<noteq> Inl loop_error"
proof (cases "Channel_StopPlaying ch w")
  case (Pair ch1 w1)
  then show ?thesis
    by (auto simp: Channel_StartPlaying_def Let_def split: sum.splits
          dest!: SetupCVT_errors Mixer_Format_errors)
qed

lemma scan_loop_error:
  assumes "\<not> CanRewind (heap w s)" "lps \<noteq> 0"
  shows "fst (StartPlaying_scan glm s lps fd fadeMs timeoutMs cs tried w) \<noteq> Inr (Some i)"
  using assms
  by (induction cs arbitrary: tried)
     (auto simp: StartPlaying_loop_error split: sum.splits prod.splits)

lemma retry_loop_error:
  "StartPlaying_retry glm channel s lps fd fadeMs timeoutMs w = Some y
    \<Longrightarrow> \<not> CanRewind (heap w s) \<and> lps \<noteq> 0 \<longrightarrow> (\<exists>e. fst y = Inl e)"
  apply (rule StartPlaying_retry.raw_induct
           [where P = "\<lambda>glm channel s lps fd fadeMs timeoutMs w y.
              \<not> CanRewind (heap w s) \<and> lps \<noteq> 0 \<longrightarrow> (\<exists>e. fst y = Inl e)"])
   apply (auto split: sum.splits prod.splits option.splits if_splits dest: scan_idle)
  using scan_loop_error apply (metis fst_conv)
  done

lemma channel_loop_error:
  assumes "\<not> CanRewind (heap w s)" "lps \<noteq> 0"
    and "StartPlaying_channel glm channel s lps fd fadeMs timeoutMs w = Some (r, w')"
  shows "(\<exists>e. r = Inl e) \<or> (r = Inr (- 1) \<and> w' = w)"
proof (cases "channel < 0")
  case True
  show ?thesis
  proof (cases "StartPlaying_retry glm channel s lps fd fadeMs timeoutMs w")
    case None
    with assms True show ?thesis
      by (auto simp: StartPlaying_channel_def Mixer_StartPlaying_def split: sum.splits if_splits)
  next
    case (Some y)
    with retry_loop_error[OF Some] assms(1,2) obtain e where "fst y = Inl e" by auto
    with Some assms True show ?thesis
      by (cases y) (auto simp: StartPlaying_channel_def Mixer_StartPlaying_def split: sum.splits if_splits)
  qed
next
  case False
  with assms show ?thesis
    by (auto simp: StartPlaying_channel_def StartPlaying_on_def StartPlaying_loop_error
          split: sum.splits if_splits prod.splits)
qed

text \<open>A request without an explicit channel: what \<^verbatim>\<open>Mixer.StartPlaying\<close> does with it
  when it finds an idle candidate after busy ones, when every candidate is busy, and
  when every channel is reserved.\<close>

lemma chan_put_same:
  assumes "chan_at w i = Inr c"
  shows "chan_put w i c = w"
proof -
  from assms have "chans w ! nat i = Some c"
    by (auto simp: chan_at_def split: if_splits option.splits)
  then have "list_update (chans w) (nat i) (Some c) = chans w"
    by (metis list_update_id)
  then show ?thesis by (simp add: chan_put_def)
qed

lemma scan_reaches_idle:
  assumes "\<not> CanRewind (heap w s)" "lps \<noteq> 0"
    and "list_all (\<lambda>j. case chan_at w j of Inl e \<Rightarrow> False
                        | Inr c \<Rightarrow> Channel_Status c \<noteq> Stopped) pre"
    and "chan_at w i = Inr c" "Channel_Status c = Stopped"
  shows "StartPlaying_scan glm s lps fd fadeMs timeoutMs (pre @ i # post) tried w
           = (Inl loop_error, True, w)"
  using assms(3)
proof (induction pre)
  case Nil
  have "Channel_StopPlaying c w = (c, w)"
    using assms(5) by (simp add: Channel_Status_def StopPlaying_idle split: if_splits)
  then show ?case
    using assms chan_at_lock[OF assms(4)] chan_put_same[OF assms(4)]
    by (simp add: StartPlaying_loop_error)
next
  case (Cons j pre)
  then show ?case by (auto split: sum.splits)
qed

lemma default_target_loop_error:
  assumes "\<not> CanRewind (heap w s)" "lps \<noteq> 0"
    and "target < 0" "init w" "reserved w \<noteq> int (length (chans w))"
    and "candidates target w = Inr (pre @ i # post)"
    and "list_all (\<lambda>j. case chan_at w j of Inl e \<Rightarrow> False
                        | Inr c \<Rightarrow> Channel_Status c \<noteq> Stopped) pre"
    and "chan_at w i = Inr c" "Channel_Status c = Stopped"
  shows "StartPlaying_channel glm target s lps fd fadeMs timeoutMs w = Some (Inl loop_error, w)"
proof -
  have "StartPlaying_retry glm target s lps fd fadeMs timeoutMs w = Some (Inl loop_error, w)"
    by (rule retry_found[OF assms(6) scan_reaches_idle[OF assms(1,2,7,8,9)]]) simp
  then show ?thesis
    using assms(3,4,5) by (simp add: StartPlaying_channel_def Mixer_StartPlaying_def CheckInit_def)
qed

lemma default_target_all_busy:
  assumes "target < 0" "init w" "reserved w \<noteq> int (length (chans w))"
    and "candidates target w = Inr cs"
    and "list_all (\<lambda>j. case chan_at w j of Inl e \<Rightarrow> False
                        | Inr c \<Rightarrow> Channel_Status c \<noteq> Stopped) cs"
  shows "StartPlaying_channel glm target s lps fd fadeMs timeoutMs w = None"
proof -
  have "StartPlaying_retry glm target s lps fd fadeMs timeoutMs w = None"
    by (rule retry_diverges[OF assms(4) scan_all_busy[OF assms(5)]])
  then show ?thesis
    using assms(1,2,3) by (simp add: StartPlaying_channel_def Mixer_StartPlaying_def CheckInit_def)
qed

lemma default_target_no_capacity:
  assumes "target < 0" "init w" "reserved w = int (length (chans w))"
  shows "StartPlaying_channel glm target s lps fd fadeMs timeoutMs w = Some (Inr (- 1), w)"
  using assms by (simp add: StartPlaying_channel_def Mixer_StartPlaying_def CheckInit_def)

text \<open>
  C7.  Let the source \<open>s\<close> be one that cannot be rewound.  For every \<open>loops \<noteq> 0\<close>,
  \<^verbatim>\<open>Channel.StartPlaying\<close> throws the \<^verbatim>\<open>ArgumentException\<close> for loop sources; the channel
  and the rest of the state are what the call of \<^verbatim>\<open>StopPlaying\<close> at its start left: the
  channel is idle, the new source is not bound, and no source has changed.  The same
  exception leaves \<^verbatim>\<open>Play\<close> and \<^verbatim>\<open>FadeIn\<close> (both are \<open>StartPlaying_channel\<close>): on an
  existing channel given by its index; and, for \<^verbatim>\<open>FreeChannel\<close> or a group, whenever
  some channel is not reserved and the scan of the candidates meets an idle channel
  after busy ones, with the state unchanged.  For such a target the call returns
  \<open>-1\<close> with nothing changed when every channel is reserved, and has no result when
  every candidate is busy.  Through no target do \<^verbatim>\<open>Play\<close> and \<^verbatim>\<open>FadeIn\<close> ever return
  the index of a channel: they throw, or return \<open>-1\<close> with nothing changed.  For
  \<open>loops = 0\<close> this exception is not thrown, whatever the source.
\<close>

theorem StartPlaying_unrewindable_loop:
  assumes "\<not> CanRewind (heap w s)"
  shows "(lps \<noteq> 0 \<longrightarrow>
            Channel_StartPlaying glm s lps fd fadeMs timeoutMs ch w
              = (Inl loop_error, Channel_StopPlaying ch w)
            \<and> source (fst (Channel_StopPlaying ch w)) = None
            \<and> heap (snd (Channel_StopPlaying ch w)) = heap w
            \<and> (init w \<and> 0 \<le> channel \<and> lock_chan_at w channel = Inr ch \<longrightarrow>
                 StartPlaying_channel glm channel s lps fd fadeMs timeoutMs w
                   = Some (Inl loop_error,
                           chan_put (snd (Channel_StopPlaying ch w)) channel
                             (fst (Channel_StopPlaying ch w))))
            \<and> (target < 0 \<and> init w \<and> reserved w \<noteq> int (length (chans w))
                \<and> candidates target w = Inr (pre @ i # post)
                \<and> list_all (\<lambda>j. case chan_at w j of Inl e \<Rightarrow> False
                                   | Inr c \<Rightarrow> Channel_Status c \<noteq> Stopped) pre
                \<and> chan_at w i = Inr c \<and> Channel_Status c = Stopped \<longrightarrow>
                 StartPlaying_channel glm target s lps fd fadeMs timeoutMs w
                   = Some (Inl loop_error, w))
            \<and> (target < 0 \<and> init w \<and> reserved w \<noteq> int (length (chans w))
                \<and> candidates target w = Inr cs
                \<and> list_all (\<lambda>j. case chan_at w j of Inl e \<Rightarrow> False
                                   | Inr c \<Rightarrow> Channel_Status c \<noteq> Stopped) cs \<longrightarrow>
                 StartPlaying_channel glm target s lps fd fadeMs timeoutMs w = None)
            \<and> (target < 0 \<and> init w \<and> reserved w = int (length (chans w)) \<longrightarrow>
                 StartPlaying_channel glm target s lps fd fadeMs timeoutMs w
                   = Some (Inr (- 1), w))
            \<and> (\<forall>r w'. StartPlaying_channel glm channel s lps fd fadeMs timeoutMs w = Some (r, w')
                   \<longrightarrow> (\<exists>e. r = Inl e) \<or> (r = Inr (- 1) \<and> w' = w)))
         \<and> fst (Channel_StartPlaying glm s 0 fd fadeMs timeoutMs ch w) \<noteq> Inl loop_error"
proof -
  obtain ch1 w1 where sp: "Channel_StopPlaying ch w = (ch1, w1)"
    by (cases "Channel_StopPlaying ch w")
  have a: "source (fst (Channel_StopPlaying ch w)) = None"
    and b: "heap (snd (Channel_StopPlaying ch w)) = heap w"
    using StopPlaying_source[OF sp] StopPlaying_heap[OF sp] sp by simp_all
  have c: "StartPlaying_channel glm channel s lps fd fadeMs timeoutMs w
             = Some (Inl loop_error,
                     chan_put (snd (Channel_StopPlaying ch w)) channel
                       (fst (Channel_StopPlaying ch w)))"
    if "lps \<noteq> 0" "init w" "0 \<le> channel" "lock_chan_at w channel = Inr ch"
    using that assms sp
    by (simp add: StartPlaying_channel_def StartPlaying_on_def StartPlaying_loop_error)
  have d: "(\<exists>e. r = Inl e) \<or> (r = Inr (- 1) \<and> w' = w)"
    if "lps \<noteq> 0" "StartPlaying_channel glm channel s lps fd fadeMs timeoutMs w = Some (r, w')"
    for r w'
    using channel_loop_error[OF assms that] .
  have e: "StartPlaying_channel glm target s lps fd fadeMs timeoutMs w = Some (Inl loop_error, w)"
    if "lps \<noteq> 0" "target < 0" "init w" "reserved w \<noteq> int (length (chans w))"
      "candidates target w = Inr (pre @ i # post)"
      "list_all (\<lambda>j. case chan_at w j of Inl e \<Rightarrow> False
                       | Inr c \<Rightarrow> Channel_Status c \<noteq> Stopped) pre"
      "chan_at w i = Inr c" "Channel_Status c = Stopped"
    using default_target_loop_error[OF assms that] .
  have f: "StartPlaying_channel glm target s lps fd fadeMs timeoutMs w = None"
    if "target < 0" "init w" "reserved w \<noteq> int (length (chans w))"
      "candidates target w = Inr cs"
      "list_all (\<lambda>j. case chan_at w j of Inl e \<Rightarrow> False
                       | Inr c \<Rightarrow> Channel_Status c \<noteq> Stopped) cs"
    using default_target_all_busy[OF that] .
  have g: "StartPlaying_channel glm target s lps fd fadeMs timeoutMs w = Some (Inr (- 1), w)"
    if "target < 0" "init w" "reserved w = int (length (chans w))"
    using default_target_no_capacity[OF that] .
  show ?thesis
  proof (intro conjI impI allI)
    show "Channel_StartPlaying glm s lps fd fadeMs timeoutMs ch w
            = (Inl loop_error, Channel_StopPlaying ch w)" if "lps \<noteq> 0"
      using StartPlaying_loop_error[OF assms that] .
    show "fst (Channel_StartPlaying glm s 0 fd fadeMs timeoutMs ch w) \<noteq> Inl loop_error"
      by (rule StartPlaying_no_loop_error)
    show "StartPlaying_channel glm target s lps fd fadeMs timeoutMs w = Some (Inl loop_error, w)"
      if "lps \<noteq> 0"
        "target < 0 \<and> init w \<and> reserved w \<noteq> int (length (chans w))
         \<and> candidates target w = Inr (pre @ i # post)
         \<and> list_all (\<lambda>j. case chan_at w j of Inl e \<Rightarrow> False
                            | Inr c \<Rightarrow> Channel_Status c \<noteq> Stopped) pre
         \<and> chan_at w i = Inr c \<and> Channel_Status c = Stopped"
      using that by (intro e) blast+
    show "StartPlaying_channel glm target s lps fd fadeMs timeoutMs w = None"
      if "target < 0 \<and> init w \<and> reserved w \<noteq> int (length (chans w))
         \<and> candidates target w = Inr cs
         \<and> list_all (\<lambda>j. case chan_at w j of Inl e \<Rightarrow> False
                            | Inr c \<Rightarrow> Channel_Status c \<noteq> Stopped) cs"
      using that by (intro f) blast+
    show "StartPlaying_channel glm target s lps fd fadeMs timeoutMs w = Some (Inr (- 1), w)"
      if "target < 0 \<and> init w \<and> reserved w = int (length (chans w))"
      using that by (intro g) blast+
  qed (use a b c d in auto)
qed

theorem StartPlaying_unrewindable_loop_witness:
  "\<not> CanRewind (heap demo_busy 1) \<and> (2::int) \<noteq> 0
   \<and> Channel_StartPlaying demo_glm 1 2 FadeNone 0 Infinite demo_channel demo_busy
       = (Inl loop_error, demo_channel\<lparr>source := None\<rparr>,
          demo_busy\<lparr>calls := [Finished_call 7 0, ChannelFinished_call 9 0]\<rparr>)
   \<and> AudioSource_Play demo_glm 1 2 Infinite 0 demo_busy
       = Some (Inl loop_error,
               demo_busy\<lparr>chans := [Some (demo_channel\<lparr>source := None\<rparr>)],
                         calls := [Finished_call 7 0, ChannelFinished_call 9 0]\<rparr>)
   \<and> fst (Channel_StartPlaying demo_glm 1 0 FadeNone 0 Infinite demo_channel demo_busy) = Inr ()
   \<and> \<not> CanRewind (heap demo_idle 1) \<and> FreeChannel < 0 \<and> init demo_idle
   \<and> reserved demo_idle \<noteq> int (length (chans demo_idle))
   \<and> candidates FreeChannel demo_idle = Inr ([] @ 0 # [])
   \<and> chan_at demo_idle 0 = Inr (new_Channel 0) \<and> Channel_Status (new_Channel 0) = Stopped
   \<and> AudioSource_Play demo_glm 1 2 Infinite FreeChannel demo_idle
       = Some (Inl loop_error, demo_idle)
   \<and> AudioSource_FadeIn demo_glm 1 500 2 Infinite FreeChannel demo_idle
       = Some (Inl loop_error, demo_idle)
   \<and> AudioSource_Play demo_glm 1 2 Infinite FreeChannel demo_world = Some (Inr (- 1), demo_world)
   \<and> AudioSource_Play demo_glm 1 2 Infinite FreeChannel demo_busy = None"
proof -
  note defs = demo_busy_def demo_idle_def demo_world_def demo_stream_def demo_source_def
    demo_channel_def new_Channel_def demo_format_def candidates_def chan_at_def
    Channel_Status_def FreeChannel_def upto.simps
  have busy: "\<not> CanRewind (heap demo_busy 1) \<and> (2::int) \<noteq> 0
     \<and> Channel_StartPlaying demo_glm 1 2 FadeNone 0 Infinite demo_channel demo_busy
         = (Inl loop_error, demo_channel\<lparr>source := None\<rparr>,
            demo_busy\<lparr>calls := [Finished_call 7 0, ChannelFinished_call 9 0]\<rparr>)
     \<and> AudioSource_Play demo_glm 1 2 Infinite 0 demo_busy
         = Some (Inl loop_error,
                 demo_busy\<lparr>chans := [Some (demo_channel\<lparr>source := None\<rparr>)],
                           calls := [Finished_call 7 0, ChannelFinished_call 9 0]\<rparr>)
     \<and> fst (Channel_StartPlaying demo_glm 1 0 FadeNone 0 Infinite demo_channel demo_busy) = Inr ()"
    using StartPlaying_unrewindable_loop
            [where w = demo_busy and s = 1 and lps = 2 and glm = demo_glm and fd = FadeNone
               and fadeMs = 0 and timeoutMs = Infinite and ch = demo_channel and channel = 0]
    by (simp add: AudioSource_Play_def demo_busy_def demo_world_def demo_stream_def
          demo_source_def demo_channel_def new_Channel_def Channel_StopPlaying_def
          OnChannelFinished_def lock_chan_at_def chan_put_def Channel_StartPlaying_def
          Mixer_Format_def CheckInit_def demo_format_def)
  have hyp: "\<not> CanRewind (heap demo_idle 1)" "FreeChannel < 0" "init demo_idle"
    "reserved demo_idle \<noteq> int (length (chans demo_idle))"
    "candidates FreeChannel demo_idle = Inr ([] @ 0 # [])"
    "chan_at demo_idle 0 = Inr (new_Channel 0)" "Channel_Status (new_Channel 0) = Stopped"
    by (simp_all add: defs)
  have play: "StartPlaying_channel demo_glm FreeChannel 1 2 FadeNone 0 Infinite demo_idle
                = Some (Inl loop_error, demo_idle)"
    using StartPlaying_unrewindable_loop
            [where w = demo_idle and s = 1 and lps = 2 and glm = demo_glm and fd = FadeNone
               and fadeMs = 0 and timeoutMs = Infinite and target = FreeChannel
               and pre = "[]" and i = 0 and post = "[]" and c = "new_Channel 0"] hyp
    by simp
  have fadein: "StartPlaying_channel demo_glm FreeChannel 1 2 FadeIn 500 Infinite demo_idle
                = Some (Inl loop_error, demo_idle)"
    using StartPlaying_unrewindable_loop
            [where w = demo_idle and s = 1 and lps = 2 and glm = demo_glm and fd = FadeIn
               and fadeMs = 500 and timeoutMs = Infinite and target = FreeChannel
               and pre = "[]" and i = 0 and post = "[]" and c = "new_Channel 0"] hyp
    by simp
  have none: "StartPlaying_channel demo_glm FreeChannel 1 2 FadeNone 0 Infinite demo_world
                = Some (Inr (- 1), demo_world)"
    using StartPlaying_unrewindable_loop
            [where w = demo_world and s = 1 and lps = 2 and glm = demo_glm and fd = FadeNone
               and fadeMs = 0 and timeoutMs = Infinite and target = FreeChannel]
    by (simp add: defs)
  have spin: "StartPlaying_channel demo_glm FreeChannel 1 2 FadeNone 0 Infinite demo_busy = None"
    using StartPlaying_unrewindable_loop
            [where w = demo_busy and s = 1 and lps = 2 and glm = demo_glm and fd = FadeNone
               and fadeMs = 0 and timeoutMs = Infinite and target = FreeChannel
               and cs = "[0]"]
    by (simp add: defs)
  show ?thesis
    using busy hyp play fadein none spin
    by (simp add: AudioSource_Play_def AudioSource_FadeIn_def)
qed

subsection \<open>Finished callbacks\<close>

lemma StopPlaying_bound:
  "source ch = Some s \<Longrightarrow>
     Channel_StopPlaying ch w = (ch\<lparr>source := None\<rparr>, w\<lparr>calls := calls w @ finished_calls ch w\<rparr>)"
  by (simp add: Channel_StopPlaying_def OnChannelFinished_def finished_calls_def)

lemma Mix_read_frame:
  "Mix_read glm fmt conv nof vol toRead read ch w = (r, ch') \<Longrightarrow>
     source ch' = source ch \<and> number ch' = number ch \<and> Finished ch' = Finished ch
     \<and> loops ch' = loops ch"
  by (auto simp: Mix_read_def Let_def split: if_splits sum.splits option.splits prod.splits)

lemma set_Position_frame [simp]:
  "calls (set_Position s p w) = calls w" "ChannelFinished (set_Position s p w) = ChannelFinished w"
  by (simp_all add: set_Position_def)

lemma finished_calls_cong:
  "number ch' = number ch \<Longrightarrow> Finished ch' = Finished ch \<Longrightarrow> ChannelFinished w' = ChannelFinished w
     \<Longrightarrow> finished_calls ch' w' = finished_calls ch w"
  by (simp add: finished_calls_def)

lemma Mix_loop_trace:
  "Mix_loop glm fmt conv nof vol s reads toRead acc ch w = Some (r, cs, ch', w') \<Longrightarrow>
   source ch = Some s0 \<Longrightarrow>
     (source ch' = None \<and> calls w' = calls w @ finished_calls ch w)
     \<or> (source ch' = source ch \<and> calls w' = calls w)"
proof (induction reads arbitrary: toRead acc ch w)
  case Nil
  then show ?case by simp
next
  case (Cons a reads)
  obtain read pos where a: "a = (read, pos)" by (cases a)
  obtain rr ch1 where mr: "Mix_read glm fmt conv nof vol toRead read ch (set_Position s pos w) = (rr, ch1)"
    by (cases "Mix_read glm fmt conv nof vol toRead read ch (set_Position s pos w)")
  note fr = Mix_read_frame[OF mr]
  show ?case
  proof (cases rr)
    case (Inl e)
    with Cons.prems a mr fr show ?thesis by (auto simp: Let_def)
  next
    case (Inr cs1)
    have fc: "finished_calls ch1 (set_Position s pos w) = finished_calls ch w"
      using fr by (simp add: finished_calls_def)
    show ?thesis
    proof (cases "int32 (toRead - read) \<le> 0")
      case True
      with Cons.prems a mr fr Inr show ?thesis by (auto simp: Let_def)
    next
      case False
      note nle = this
      show ?thesis
      proof (cases "read = 0")
        case True
        show ?thesis
        proof (cases "loops ch1 = 0")
          case True
          with Cons.prems a mr fr Inr nle \<open>read = 0\<close> fc show ?thesis
            by (auto simp: Let_def StopPlaying_bound)
        next
          case False
          let ?ch2 = "ch1\<lparr>position := 0, loops := (if loops ch1 = Infinite then loops ch1 else int32 (loops ch1 - 1))\<rparr>"
          have rec: "Mix_loop glm fmt conv nof vol s reads (int32 (toRead - read)) (acc @ cs1) ?ch2
                       (set_Position s 0 (set_Position s pos w)) = Some (r, cs, ch', w')"
            using Cons.prems(1) a mr Inr nle \<open>read = 0\<close> False by (simp add: Let_def)
          have "source ?ch2 = Some s0" using fr Cons.prems(2) by simp
          from Cons.IH[OF rec this] fr show ?thesis
            by (auto simp: finished_calls_def)
        qed
      next
        case False
        have rec: "Mix_loop glm fmt conv nof vol s reads (int32 (toRead - read)) (acc @ cs1) ch1
                       (set_Position s pos w) = Some (r, cs, ch', w')"
          using Cons.prems(1) a mr Inr nle False by (simp add: Let_def)
        have "source ch1 = Some s0" using fr Cons.prems(2) by simp
        from Cons.IH[OF rec this] fr show ?thesis
          by (auto simp: finished_calls_def)
      qed
    qed
  qed
qed

lemma Mix_fade_frame:
  "Mix_fade vol ch w = Inr (v, ch') \<Longrightarrow>
     source ch' = source ch \<and> number ch' = number ch \<and> Finished ch' = Finished ch"
  by (auto simp: Mix_fade_def Let_def split: if_splits sum.splits)

lemma Mix_toRead_frame:
  "Mix_toRead glm frames r fmt ch w = Inr (Some (toRead, fmt', conv, ch')) \<Longrightarrow>
     source ch' = source ch \<and> number ch' = number ch \<and> Finished ch' = Finished ch"
  by (auto simp: Mix_toRead_def Let_def split: if_splits sum.splits option.splits prod.splits)

text \<open>The paths of a mix pass, one lemma each.\<close>

lemma Mix_idle: "source ch = None \<Longrightarrow> Channel_Mix glm frames filters reads ch w = Some (Inr (), [], ch, w)"
  by (simp add: Channel_Mix_def)

lemma Mix_paused:
  "source ch = Some s \<Longrightarrow> paused ch \<Longrightarrow>
     Channel_Mix glm frames filters reads ch w = Some (Inr (), [], ch, w)"
  by (simp add: Channel_Mix_def)

lemma Mix_timeout:
  "source ch = Some s \<Longrightarrow> \<not> paused ch \<Longrightarrow> timeout ch \<noteq> Infinite \<Longrightarrow> Channel_Age ch w > timeout ch \<Longrightarrow>
     Channel_Mix glm frames filters reads ch w
       = Some (Inr (), [], ch\<lparr>source := None\<rparr>, w\<lparr>calls := calls w @ finished_calls ch w\<rparr>)"
  by (simp add: Channel_Mix_def Let_def StopPlaying_bound)

lemma Mix_playing:
  "source ch = Some s \<Longrightarrow> \<not> paused ch \<Longrightarrow> \<not> (timeout ch \<noteq> Infinite \<and> Channel_Age ch w > timeout ch) \<Longrightarrow>
     Channel_Mix glm frames filters reads ch w =
       (case Mix_fade (EffectiveVolume ch (heap w s)) ch w of
          Inl e \<Rightarrow> Some (Inl e, [], ch, w)
        | Inr (None, ch1) \<Rightarrow>
            (let (ch, w) = Channel_StopPlaying ch1 w in Some (Inr (), [], ch, w))
        | Inr (Some vol, ch1) \<Rightarrow>
            let w1 = (if CanSeek (heap w s) then set_Position s (position ch1) w else w)
            in (case Mix_toRead glm frames (EffectiveRate ch (heap w s)) (src_format (heap w s)) ch1 w1 of
                  Inl e \<Rightarrow> Some (Inl e, [], ch1, w1)
                | Inr None \<Rightarrow> Some (Inr (), [], ch1, w1)
                | Inr (Some (toRead, fmt, conv, ch2)) \<Rightarrow>
                    Mix_loop glm fmt conv (Filters ch2 = [] \<and> filters = []) vol s reads toRead [] ch2 w1))"
  by (auto simp: Channel_Mix_def Let_def)

lemma Mix_trace:
  assumes "Channel_Mix glm frames filters reads ch w = Some (r, cs, ch', w')"
  shows "(source ch' = None \<and> source ch \<noteq> None \<and> calls w' = calls w @ finished_calls ch w)
         \<or> (source ch' = source ch \<and> calls w' = calls w)"
proof (cases "source ch")
  case None
  with assms show ?thesis by (simp add: Mix_idle)
next
  case (Some s)
  note src = this
  show ?thesis
  proof (cases "paused ch")
    case True
    with assms src show ?thesis by (simp add: Mix_paused)
  next
    case False
    note np = this
    show ?thesis
    proof (cases "timeout ch \<noteq> Infinite \<and> Channel_Age ch w > timeout ch")
      case True
      with assms src np show ?thesis by (auto simp: Mix_timeout)
    next
      case False
      note mp = Mix_playing[OF src np False, of glm frames filters reads]
      show ?thesis
      proof (cases "Mix_fade (EffectiveVolume ch (heap w s)) ch w")
        case (Inl e)
        with assms mp show ?thesis by simp
      next
        case (Inr p)
        obtain v ch1 where p: "p = (v, ch1)" by (cases p)
        note mf = Inr[unfolded p]
        note f1 = Mix_fade_frame[OF mf]
        show ?thesis
        proof (cases v)
          case None
          have "source ch1 = Some s" using f1 src by simp
          from StopPlaying_bound[OF this] assms mp mf None f1 src show ?thesis
            by (auto simp: finished_calls_def)
        next
          case (Some vol)
          define w1 where "w1 = (if CanSeek (heap w s) then set_Position s (position ch1) w else w)"
          have w1: "calls w1 = calls w" "ChannelFinished w1 = ChannelFinished w"
            by (simp_all add: w1_def)
          show ?thesis
          proof (cases "Mix_toRead glm frames (EffectiveRate ch (heap w s)) (src_format (heap w s)) ch1 w1")
            case (Inl e)
            with assms mp mf Some f1 w1 src show ?thesis
              by (auto simp: w1_def[symmetric])
          next
            case (Inr q)
            note q = this
            show ?thesis
            proof (cases q)
              case None
              with assms mp mf Some f1 w1 q src show ?thesis
                by (auto simp: w1_def[symmetric])
            next
              case (Some t)
              obtain toRead fmt' conv ch2 where t: "t = (toRead, fmt', conv, ch2)" by (cases t)
              note f2 = Mix_toRead_frame[OF q[unfolded Some t]]
              have ml: "Mix_loop glm fmt' conv (Filters ch2 = [] \<and> filters = []) vol s reads toRead [] ch2 w1
                          = Some (r, cs, ch', w')"
                using assms mp mf \<open>v = Some vol\<close> q Some t
                by (simp add: w1_def[symmetric])
              have "source ch2 = Some s" using f1 f2 src by simp
              from Mix_loop_trace[OF ml this] f1 f2 w1 src show ?thesis
                by (auto simp: finished_calls_def)
            qed
          qed
        qed
      qed
    qed
  qed
qed


lemma Mix_fade_out_done:
  assumes "source ch = Some s" "\<not> paused ch"
    and "\<not> (timeout ch \<noteq> Infinite \<and> Channel_Age ch w > timeout ch)"
    and "fade ch = FadeOut" "uint32 (Ticks w - fadeStart ch) > fadeTime ch"
  shows "Channel_Mix glm frames filters reads ch w
           = Some (Inr (), [], ch\<lparr>source := None\<rparr>, w\<lparr>calls := calls w @ finished_calls ch w\<rparr>)"
proof -
  have "Mix_fade (EffectiveVolume ch (heap w s)) ch w = Inr (None, ch)"
    using assms(4,5) by (simp add: Mix_fade_def Let_def)
  then show ?thesis
    using Mix_playing[OF assms(1-3), of glm frames filters reads] StopPlaying_bound[OF assms(1), of w]
    by simp
qed

lemma Mix_loop_end_of_stream:
  assumes "source ch = Some s0" "loops ch = 0" "0 < int32 toRead"
    and "Mix_read glm fmt conv nof vol toRead 0 ch (set_Position s pos w) = (Inr cs1, ch1)"
  shows "Mix_loop glm fmt conv nof vol s ((0, pos) # reads) toRead acc ch w
           = Some (Inr (), acc @ cs1, ch1\<lparr>source := None\<rparr>,
                   (set_Position s pos w)\<lparr>calls := calls w @ finished_calls ch w\<rparr>)"
proof -
  note fr = Mix_read_frame[OF assms(4)]
  have "source ch1 = Some s0" using fr assms(1) by simp
  from StopPlaying_bound[OF this, of "set_Position s pos w"] fr assms show ?thesis
    by (simp add: Let_def finished_calls_def)
qed

lemma StartPlaying_calls:
  "calls (snd (snd (Channel_StartPlaying glm s lps fd fadeMs timeoutMs ch w)))
     = calls w @ (if source ch = None then [] else finished_calls ch w)"
proof (cases "Channel_StopPlaying ch w")
  case (Pair ch1 w1)
  have "calls w1 = calls w @ (if source ch = None then [] else finished_calls ch w)"
    using Pair by (cases "source ch") (auto simp: StopPlaying_bound StopPlaying_idle)
  with Pair show ?thesis
    by (auto simp: Channel_StartPlaying_def Let_def split: sum.splits if_splits)
qed

text \<open>
  C9.  For every channel and every state: \<^verbatim>\<open>Stop\<close> on a playing channel makes it idle
  and adds to the trace the calls of the channel's \<^verbatim>\<open>Finished\<close> handlers followed by
  those of the mixer's \<^verbatim>\<open>ChannelFinished\<close> handlers, once; \<^verbatim>\<open>Stop\<close> on an idle channel
  changes nothing, and a mix pass on an idle channel makes no call on the accumulator
  and changes nothing.  A mix pass that returns has either made a playing channel idle
  and added exactly those calls, once, or has left the source of the channel and the
  trace as they were.  The pass does make the channel idle on a timeout, on the end of
  a fade-out, and when a read returns 0 with frames still missing and no loop left.
  Binding a source adds the calls for the binding it replaces and none for the new one.
  \<^verbatim>\<open>Pause\<close>, \<^verbatim>\<open>Resume\<close> and \<^verbatim>\<open>FadeOut\<close> do not change the source of a channel, so an
  idle channel stays idle until \<^verbatim>\<open>StartPlaying\<close>.
\<close>

theorem finished_fires_once:
  "(source ch \<noteq> None \<longrightarrow>
      Channel_Stop ch w = (ch\<lparr>source := None\<rparr>, w\<lparr>calls := calls w @ finished_calls ch w\<rparr>))
   \<and> (source ch = None \<longrightarrow>
        Channel_Stop ch w = (ch, w)
        \<and> Channel_Mix glm frames filters reads ch w = Some (Inr (), [], ch, w))
   \<and> (\<forall>r cs ch' w'. Channel_Mix glm frames filters reads ch w = Some (r, cs, ch', w') \<longrightarrow>
         (source ch' = None \<and> source ch \<noteq> None \<and> calls w' = calls w @ finished_calls ch w)
         \<or> (source ch' = source ch \<and> calls w' = calls w))
   \<and> (source ch \<noteq> None \<and> \<not> paused ch \<and> timeout ch \<noteq> Infinite \<and> Channel_Age ch w > timeout ch \<longrightarrow>
        Channel_Mix glm frames filters reads ch w
          = Some (Inr (), [], ch\<lparr>source := None\<rparr>, w\<lparr>calls := calls w @ finished_calls ch w\<rparr>))
   \<and> (source ch \<noteq> None \<and> \<not> paused ch
        \<and> \<not> (timeout ch \<noteq> Infinite \<and> Channel_Age ch w > timeout ch)
        \<and> fade ch = FadeOut \<and> uint32 (Ticks w - fadeStart ch) > fadeTime ch \<longrightarrow>
        Channel_Mix glm frames filters reads ch w
          = Some (Inr (), [], ch\<lparr>source := None\<rparr>, w\<lparr>calls := calls w @ finished_calls ch w\<rparr>))
   \<and> (\<forall>cs1 ch1. source ch \<noteq> None \<and> loops ch = 0 \<and> 0 < int32 toRead
        \<and> Mix_read glm fmt conv nof vol toRead 0 ch (set_Position s pos w) = (Inr cs1, ch1) \<longrightarrow>
        Mix_loop glm fmt conv nof vol s ((0, pos) # reads) toRead acc ch w
          = Some (Inr (), acc @ cs1, ch1\<lparr>source := None\<rparr>,
                  (set_Position s pos w)\<lparr>calls := calls w @ finished_calls ch w\<rparr>))
   \<and> calls (snd (snd (Channel_StartPlaying glm s lps fd fadeMs timeoutMs ch w)))
        = calls w @ (if source ch = None then [] else finished_calls ch w)
   \<and> source (Channel_Pause ch) = source ch \<and> source (Channel_Resume ch) = source ch
   \<and> source (Channel_FadeOut fadeMs ch w) = source ch"
proof (intro conjI impI allI)
  fix r cs ch' w'
  assume "Channel_Mix glm frames filters reads ch w = Some (r, cs, ch', w')"
  then show "(source ch' = None \<and> source ch \<noteq> None \<and> calls w' = calls w @ finished_calls ch w)
             \<or> (source ch' = source ch \<and> calls w' = calls w)"
    by (rule Mix_trace)
next
  fix cs1 ch1
  assume a: "source ch \<noteq> None \<and> loops ch = 0 \<and> 0 < int32 toRead
        \<and> Mix_read glm fmt conv nof vol toRead 0 ch (set_Position s pos w) = (Inr cs1, ch1)"
  then obtain s0 where "source ch = Some s0" by auto
  then show "Mix_loop glm fmt conv nof vol s ((0, pos) # reads) toRead acc ch w
          = Some (Inr (), acc @ cs1, ch1\<lparr>source := None\<rparr>,
                  (set_Position s pos w)\<lparr>calls := calls w @ finished_calls ch w\<rparr>)"
    using a by (intro Mix_loop_end_of_stream) blast+
next
  show "calls (snd (snd (Channel_StartPlaying glm s lps fd fadeMs timeoutMs ch w)))
        = calls w @ (if source ch = None then [] else finished_calls ch w)"
    by (rule StartPlaying_calls)
qed (auto simp: Channel_Stop_def StopPlaying_bound StopPlaying_idle Mix_idle Mix_timeout
       Mix_fade_out_done Channel_Pause_def Channel_Resume_def Channel_FadeOut_def
       split: option.splits)


lemmas demo_defs = demo_busy_def demo_world_def demo_channel_def demo_source_def demo_stream_def
  demo_format_def demo_glm_def new_Channel_def

theorem finished_fires_once_witness:
  "source demo_channel \<noteq> None
   \<and> Channel_Stop demo_channel demo_busy
       = (demo_channel\<lparr>source := None\<rparr>,
          demo_busy\<lparr>calls := [Finished_call 7 0, ChannelFinished_call 9 0]\<rparr>)
   \<and> Channel_Stop (demo_channel\<lparr>source := None\<rparr>)
        (demo_busy\<lparr>calls := [Finished_call 7 0, ChannelFinished_call 9 0]\<rparr>)
       = (demo_channel\<lparr>source := None\<rparr>,
          demo_busy\<lparr>calls := [Finished_call 7 0, ChannelFinished_call 9 0]\<rparr>)
   \<and> map_option (\<lambda>(r, cs, ch', w'). (r, cs, source ch', calls w'))
        (Channel_Mix demo_glm 4 [] [(0, 0)] demo_channel demo_busy)
       = Some (Inr (), [ReadFrames_call 4 256], None, [Finished_call 7 0, ChannelFinished_call 9 0])
   \<and> map_option (\<lambda>(r, cs, ch', w'). (r, cs, source ch', calls w'))
        (Channel_Mix demo_glm 4 [] [(4, 4)] demo_channel demo_busy)
       = Some (Inr (), [ReadFrames_call 4 256], Some 0, [])"
  using finished_fires_once
          [where ch = demo_channel and w = demo_busy and glm = demo_glm and frames = 4
             and filters = "[]" and reads = "[(0, 0)]"]
  by (simp add: demo_defs finished_calls_def Channel_Mix_def Mix_fade_def Mix_toRead_def
        Mix_read_def EffectiveRate_def EffectiveVolume_def set_Position_def int32_def
        Channel_Age_def Channel_Stop_def Channel_StopPlaying_def OnChannelFinished_def
        Infinite_def MaxVolume_def Let_def)

subsection \<open>Fade-out\<close>

lemma int32_id: "- 2147483648 \<le> x \<Longrightarrow> x < 2147483648 \<Longrightarrow> int32 x = x"
  by (simp add: int32_def)

lemma int32_nonzero: "0 < x \<Longrightarrow> x < 4294967296 \<Longrightarrow> int32 x \<noteq> 0"
proof (cases "x < 2147483648")
  case True
  assume "0 < x" with True show ?thesis by (simp add: int32_id)
next
  case False
  assume "x < 4294967296"
  with False have "(x + 2147483648) mod 4294967296 = x - 2147483648"
    by (simp add: mod_pos_geq)
  with False \<open>x < 4294967296\<close> show ?thesis by (simp add: int32_def)
qed

lemma Mix_fade_out_volume:
  assumes "fade ch = FadeOut"
    and V: "0 \<le> fadeVolume ch" "fadeVolume ch \<le> MaxVolume"
    and D: "0 < fadeTime ch" "fadeTime ch < 4294967296"
    and VD: "fadeVolume ch * fadeTime ch < 2147483648"
    and t: "uint32 (Ticks w - fadeStart ch) \<le> fadeTime ch"
  shows "Mix_fade vol ch w
           = Inr (Some (fadeVolume ch - fadeVolume ch * uint32 (Ticks w - fadeStart ch) div fadeTime ch), ch)"
proof -
  define V where "V = fadeVolume ch"
  define Dd where "Dd = fadeTime ch"
  define t where "t = uint32 (Ticks w - fadeStart ch)"
  have t0: "0 \<le> t" by (simp add: t_def uint32_def)
  have tD: "t \<le> Dd" using assms by (simp add: t_def Dd_def)
  have V0: "0 \<le> V" "V \<le> 256" using V by (simp_all add: V_def MaxVolume_def)
  have Dp: "0 < Dd" "Dd < 4294967296" using D by (simp_all add: Dd_def)
  have VDd: "V * Dd < 2147483648" using VD by (simp add: V_def Dd_def)
  have Vt: "V * t < 2147483648"
    using mult_left_mono[OF tD V0(1)] VDd by linarith
  have Vt0: "0 \<le> V * t" using V0 t0 by simp
  have mV: "int32 (0 - V) = - V" using V0 by (simp add: int32_id)
  have q: "div32 (int32 (int32 (0 - V) * int32 t)) (int32 Dd) = Inr (- (V * t div Dd))"
  proof (cases "V = 0")
    case True
    have "int32 Dd \<noteq> 0" using Dp by (rule int32_nonzero)
    moreover have "int32 (0::int) = 0" by (simp add: int32_def)
    ultimately show ?thesis using True by (simp add: div32_def quot_def)
  next
    case False
    then have V1: "1 \<le> V" using V0 by simp
    have "Dd \<le> V * Dd" using V1 Dp by (simp add: mult_le_cancel_right1)
    then have Dlt: "Dd < 2147483648" using VDd by linarith
    have it: "int32 t = t" using t0 tD Dlt by (simp add: int32_id)
    have iD: "int32 Dd = Dd" using Dp Dlt by (simp add: int32_id)
    have ip: "int32 (- V * t) = - (V * t)" using Vt Vt0 by (simp add: int32_id)
    have "quot (- (V * t)) Dd = - (V * t div Dd)"
      using Vt0 Dp by (cases "V * t = 0") (auto simp: quot_def)
    then show ?thesis
      using mV it iD ip Dp by (auto simp: div32_def)
  qed
  have r: "int32 (V + - (V * t div Dd)) = V - V * t div Dd"
  proof -
    have "0 \<le> V * t div Dd" using Vt0 Dp by (simp add: pos_imp_zdiv_nonneg_iff)
    moreover have "V * t div Dd \<le> V"
    proof -
      have "V * t \<le> V * Dd" using mult_left_mono[OF tD V0(1)] .
      then have "V * t div Dd \<le> V * Dd div Dd" by (rule zdiv_mono1) (use Dp in simp)
      then show ?thesis using Dp by simp
    qed
    ultimately show ?thesis using V0 by (simp add: int32_id)
  qed
  show ?thesis
    using assms(1) tD q r
    by (simp add: Mix_fade_def Let_def V_def[symmetric] Dd_def[symmetric] t_def[symmetric])
qed


lemma Mix_read_scale:
  "Mix_read glm fmt conv nof vol toRead read ch w = (Inr cs, ch') \<Longrightarrow> 0 \<le> vol \<Longrightarrow> vol < 65536
     \<Longrightarrow> list_all (\<lambda>c. scale c = vol) cs"
  by (auto simp: Mix_read_def Let_def uint16_def
        split: if_splits sum.splits option.splits prod.splits)

lemma Mix_loop_scale:
  "Mix_loop glm fmt conv nof vol s reads toRead acc ch w = Some (r, cs, ch', w') \<Longrightarrow>
   0 \<le> vol \<Longrightarrow> vol < 65536 \<Longrightarrow> list_all (\<lambda>c. scale c = vol) acc
     \<Longrightarrow> list_all (\<lambda>c. scale c = vol) cs"
proof (induction reads arbitrary: toRead acc ch w)
  case Nil
  then show ?case by simp
next
  case (Cons a reads)
  obtain read pos where a: "a = (read, pos)" by (cases a)
  obtain rr ch1 where mr: "Mix_read glm fmt conv nof vol toRead read ch (set_Position s pos w) = (rr, ch1)"
    by (cases "Mix_read glm fmt conv nof vol toRead read ch (set_Position s pos w)")
  show ?case
  proof (cases rr)
    case (Inl e)
    with Cons.prems a mr show ?thesis by (auto simp: Let_def)
  next
    case (Inr cs1)
    have acc': "list_all (\<lambda>c. scale c = vol) (acc @ cs1)"
      using Mix_read_scale[OF mr[unfolded Inr] Cons.prems(2,3)] Cons.prems(4) by simp
    show ?thesis
    proof (cases "int32 (toRead - read) \<le> 0")
      case True
      with Cons.prems(1) a mr Inr acc' show ?thesis by (auto simp: Let_def)
    next
      case False
      note nle = this
      show ?thesis
      proof (cases "read = 0")
        case True
        show ?thesis
        proof (cases "loops ch1 = 0")
          case True
          with Cons.prems(1) a mr Inr nle \<open>read = 0\<close> acc' show ?thesis
            by (auto simp: Let_def split: prod.splits)
        next
          case False
          let ?ch2 = "ch1\<lparr>position := 0, loops := (if loops ch1 = Infinite then loops ch1 else int32 (loops ch1 - 1))\<rparr>"
          have rec: "Mix_loop glm fmt conv nof vol s reads (int32 (toRead - read)) (acc @ cs1) ?ch2
                       (set_Position s 0 (set_Position s pos w)) = Some (r, cs, ch', w')"
            using Cons.prems(1) a mr Inr nle \<open>read = 0\<close> False by (simp add: Let_def)
          from Cons.IH[OF rec Cons.prems(2,3) acc'] show ?thesis .
        qed
      next
        case False
        have rec: "Mix_loop glm fmt conv nof vol s reads (int32 (toRead - read)) (acc @ cs1) ch1
                       (set_Position s pos w) = Some (r, cs, ch', w')"
          using Cons.prems(1) a mr Inr nle False by (simp add: Let_def)
        from Cons.IH[OF rec Cons.prems(2,3) acc'] show ?thesis .
      qed
    qed
  qed
qed

lemma Mix_scale:
  assumes mix: "Channel_Mix glm frames filters reads ch w = Some (r, cs, ch', w')"
    and mf: "\<And>s. source ch = Some s \<Longrightarrow> Mix_fade (EffectiveVolume ch (heap w s)) ch w = Inr (Some vol, ch)"
    and vol: "0 \<le> vol" "vol < 65536"
  shows "list_all (\<lambda>c. scale c = vol) cs"
proof (cases "source ch")
  case None
  with mix show ?thesis by (simp add: Mix_idle)
next
  case (Some s)
  note src = this
  show ?thesis
  proof (cases "paused ch")
    case True
    with mix src show ?thesis by (simp add: Mix_paused)
  next
    case False
    note np = this
    show ?thesis
    proof (cases "timeout ch \<noteq> Infinite \<and> Channel_Age ch w > timeout ch")
      case True
      with mix src np show ?thesis by (auto simp: Mix_timeout)
    next
      case False
      note mp = Mix_playing[OF src np False, of glm frames filters reads]
      define w1 where "w1 = (if CanSeek (heap w s) then set_Position s (position ch) w else w)"
      show ?thesis
      proof (cases "Mix_toRead glm frames (EffectiveRate ch (heap w s)) (src_format (heap w s)) ch w1")
        case (Inl e)
        with mix mp mf[OF src] show ?thesis by (auto simp: w1_def[symmetric])
      next
        case (Inr q)
        show ?thesis
        proof (cases q)
          case None
          with mix mp mf[OF src] Inr show ?thesis by (auto simp: w1_def[symmetric])
        next
          case (Some t)
          obtain toRead fmt' conv ch2 where t: "t = (toRead, fmt', conv, ch2)" by (cases t)
          have ml: "Mix_loop glm fmt' conv (Filters ch2 = [] \<and> filters = []) vol s reads toRead [] ch2 w1
                      = Some (r, cs, ch', w')"
            using mix mp mf[OF src] Inr Some t by (simp add: w1_def[symmetric])
          from Mix_loop_scale[OF ml vol] show ?thesis by simp
        qed
      qed
    qed
  qed
qed

lemma linear_bound:
  fixes V D t :: int
  assumes "0 < D"
  shows "\<bar>real_of_int (V - V * t div D) - real_of_int V * (real_of_int D - real_of_int t) / real_of_int D\<bar> \<le> 1"
proof -
  define x where "x = real_of_int (V * t) / real_of_int D"
  have fl: "real_of_int (V * t div D) = of_int \<lfloor>x\<rfloor>"
    unfolding x_def by (simp only: floor_divide_of_int_eq)
  have eq: "real_of_int V * (real_of_int D - real_of_int t) / real_of_int D = real_of_int V - x"
    using assms by (simp add: x_def field_simps)
  have lo: "of_int \<lfloor>x\<rfloor> \<le> x" and hi: "x < of_int \<lfloor>x\<rfloor> + 1" by linarith+
  have "real_of_int (V - V * t div D) = real_of_int V - of_int \<lfloor>x\<rfloor>"
    using fl by simp
  with eq lo hi show ?thesis by linarith
qed

lemma EffectiveVolume_range:
  assumes "0 \<le> volume ch" "volume ch \<le> MaxVolume" "0 \<le> src_volume src" "src_volume src \<le> MaxVolume"
  shows "0 \<le> EffectiveVolume ch src \<and> EffectiveVolume ch src \<le> MaxVolume"
proof (cases "src_volume src = MaxVolume")
  case True
  with assms show ?thesis by (simp add: EffectiveVolume_def)
next
  case False
  have p0: "0 \<le> volume ch * src_volume src" using assms by simp
  have "volume ch * src_volume src \<le> 256 * 256"
    using assms by (intro mult_mono) (simp_all add: MaxVolume_def)
  then have p1: "volume ch * src_volume src \<le> 65536" by simp
  then have i: "int32 (volume ch * src_volume src) = volume ch * src_volume src"
    using p0 by (simp add: int32_id)
  have "volume ch * src_volume src div 256 \<le> 65536 div 256" using p1 by (rule zdiv_mono1) simp
  moreover have "0 \<le> volume ch * src_volume src div 256" using p0 by (simp add: pos_imp_zdiv_nonneg_iff)
  ultimately show ?thesis
    using False i by (simp add: EffectiveVolume_def shr32_def drop_bit_eq_div MaxVolume_def)
qed


text \<open>
  C6 as stated fails.  A channel of volume 256 plays a source of volume 256 and is
  faded out over 16777216 ms at time 0; the mix pass at time 8388609 mixes its input
  with the factor 383, where \<open>V\<cdot>(D - t)/D\<close> is just under 128: the 32-bit product
  \<^verbatim>\<open>(target-fadeVolume)*(int)fadeSoFar\<close> has wrapped around.
\<close>

theorem fade_out_scale_overflows:
  "map_option (map scale \<circ> fst \<circ> snd)
     (Channel_Mix demo_glm 4 [] [(4, 4)] (Channel_FadeOut 16777216 demo_channel demo_busy)
        (demo_busy\<lparr>Ticks := 8388609\<rparr>))
     = Some [383]
   \<and> fadeVolume (Channel_FadeOut 16777216 demo_channel demo_busy) = 256
   \<and> fadeTime (Channel_FadeOut 16777216 demo_channel demo_busy) = 16777216
   \<and> uint32 (Ticks (demo_busy\<lparr>Ticks := 8388609\<rparr>)
               - fadeStart (Channel_FadeOut 16777216 demo_channel demo_busy)) = 8388609
   \<and> \<not> \<bar>383 - 256 * (16777216 - 8388609) / 16777216\<bar> \<le> (1::real)"
  by (simp add: demo_defs Channel_FadeOut_def Channel_Mix_def Mix_fade_def Mix_toRead_def
        Mix_read_def EffectiveRate_def EffectiveVolume_def set_Position_def int32_def uint32_def
        div32_def quot_def Channel_Age_def Infinite_def MaxVolume_def Let_def)

text \<open>
  C6, amended.  \<^verbatim>\<open>FadeOut(fadeMs)\<close> on a playing channel with volumes in \<open>[0, 256]\<close>
  records the fade: its duration \<open>D = fadeMs\<close>, its start, and the effective volume
  \<open>V\<close>, which lies in \<open>[0, 256]\<close>.  For a channel fading out with \<open>0 < D\<close> and
  \<open>V\<cdot>D < 2\<^sup>3\<^sup>1\<close>, every call on the accumulator that a mix pass at elapsed time
  \<open>t \<le> D\<close> makes has the factor \<open>V - V\<cdot>t div D\<close>, which is within 1 of
  \<open>V\<cdot>(D - t)/D\<close>.  A mix pass at \<open>t > D\<close> on a channel that is neither paused nor
  timed out makes no call, leaves the channel idle and adds the finished calls to the
  trace.
\<close>

theorem fade_out_linear:
  "(source ch = Some s \<and> 0 \<le> volume ch \<and> volume ch \<le> MaxVolume
      \<and> 0 \<le> src_volume (heap w s) \<and> src_volume (heap w s) \<le> MaxVolume \<longrightarrow>
      source (Channel_FadeOut fadeMs ch w) = Some s
      \<and> fade (Channel_FadeOut fadeMs ch w) = FadeOut
      \<and> fadeTime (Channel_FadeOut fadeMs ch w) = fadeMs
      \<and> fadeStart (Channel_FadeOut fadeMs ch w) = Ticks w
      \<and> fadeVolume (Channel_FadeOut fadeMs ch w) = EffectiveVolume ch (heap w s)
      \<and> 0 \<le> EffectiveVolume ch (heap w s) \<and> EffectiveVolume ch (heap w s) \<le> MaxVolume)
   \<and> (fade ch = FadeOut \<and> 0 \<le> fadeVolume ch \<and> fadeVolume ch \<le> MaxVolume
        \<and> 0 < fadeTime ch \<and> fadeTime ch < 4294967296
        \<and> fadeVolume ch * fadeTime ch < 2147483648
        \<and> uint32 (Ticks w - fadeStart ch) \<le> fadeTime ch
        \<and> Channel_Mix glm frames filters reads ch w = Some (r, cs, ch', w') \<longrightarrow>
        list_all
          (\<lambda>c. scale c = fadeVolume ch
                             - fadeVolume ch * uint32 (Ticks w - fadeStart ch) div fadeTime ch
                \<and> \<bar>real_of_int (scale c)
                    - real_of_int (fadeVolume ch)
                      * (real_of_int (fadeTime ch) - real_of_int (uint32 (Ticks w - fadeStart ch)))
                      / real_of_int (fadeTime ch)\<bar> \<le> 1) cs)
   \<and> (source ch = Some s \<and> \<not> paused ch
        \<and> \<not> (timeout ch \<noteq> Infinite \<and> Channel_Age ch w > timeout ch)
        \<and> fade ch = FadeOut \<and> fadeTime ch < uint32 (Ticks w - fadeStart ch) \<longrightarrow>
        Channel_Mix glm frames filters reads ch w
          = Some (Inr (), [], ch\<lparr>source := None\<rparr>, w\<lparr>calls := calls w @ finished_calls ch w\<rparr>))"
proof (intro conjI impI)
  assume a: "source ch = Some s \<and> 0 \<le> volume ch \<and> volume ch \<le> MaxVolume
      \<and> 0 \<le> src_volume (heap w s) \<and> src_volume (heap w s) \<le> MaxVolume"
  then show "source (Channel_FadeOut fadeMs ch w) = Some s"
    "fade (Channel_FadeOut fadeMs ch w) = FadeOut"
    "fadeTime (Channel_FadeOut fadeMs ch w) = fadeMs"
    "fadeStart (Channel_FadeOut fadeMs ch w) = Ticks w"
    "fadeVolume (Channel_FadeOut fadeMs ch w) = EffectiveVolume ch (heap w s)"
    by (simp_all add: Channel_FadeOut_def)
  from a show "0 \<le> EffectiveVolume ch (heap w s)" "EffectiveVolume ch (heap w s) \<le> MaxVolume"
    using EffectiveVolume_range[of ch "heap w s"] by simp_all
next
  assume a: "fade ch = FadeOut \<and> 0 \<le> fadeVolume ch \<and> fadeVolume ch \<le> MaxVolume
        \<and> 0 < fadeTime ch \<and> fadeTime ch < 4294967296
        \<and> fadeVolume ch * fadeTime ch < 2147483648
        \<and> uint32 (Ticks w - fadeStart ch) \<le> fadeTime ch
        \<and> Channel_Mix glm frames filters reads ch w = Some (r, cs, ch', w')"
  define V where "V = fadeVolume ch"
  define D where "D = fadeTime ch"
  define t where "t = uint32 (Ticks w - fadeStart ch)"
  define vol where "vol = V - V * t div D"
  have mf: "Mix_fade v0 ch w = Inr (Some vol, ch)" for v0
    using a Mix_fade_out_volume[of ch w v0] by (simp add: vol_def V_def D_def t_def)
  have t0: "0 \<le> t" by (simp add: t_def uint32_def)
  have V0: "0 \<le> V" "V \<le> 256" "0 < D" using a by (simp_all add: V_def D_def MaxVolume_def)
  have "0 \<le> V * t div D" using V0 t0 by (simp add: pos_imp_zdiv_nonneg_iff)
  then have v1: "vol < 65536" using V0 by (simp add: vol_def)
  have "V * t \<le> V * D" using a V0 by (intro mult_left_mono) (simp_all add: t_def D_def)
  then have "V * t div D \<le> V * D div D" by (rule zdiv_mono1) (use V0 in simp)
  then have v0: "0 \<le> vol" using V0 by (simp add: vol_def)
  have mix: "Channel_Mix glm frames filters reads ch w = Some (r, cs, ch', w')"
    using a by simp
  have sc: "list_all (\<lambda>c. scale c = vol) cs"
    by (rule Mix_scale[OF mix mf v0 v1])
  have "\<bar>real_of_int vol - real_of_int V * (real_of_int D - real_of_int t) / real_of_int D\<bar> \<le> 1"
    unfolding vol_def using V0(3) by (rule linear_bound)
  with sc show "list_all
          (\<lambda>c. scale c = fadeVolume ch
                             - fadeVolume ch * uint32 (Ticks w - fadeStart ch) div fadeTime ch
                \<and> \<bar>real_of_int (scale c)
                    - real_of_int (fadeVolume ch)
                      * (real_of_int (fadeTime ch) - real_of_int (uint32 (Ticks w - fadeStart ch)))
                      / real_of_int (fadeTime ch)\<bar> \<le> 1) cs"
    by (simp add: list_all_iff vol_def V_def D_def t_def)
next
  assume "source ch = Some s \<and> \<not> paused ch
        \<and> \<not> (timeout ch \<noteq> Infinite \<and> Channel_Age ch w > timeout ch)
        \<and> fade ch = FadeOut \<and> fadeTime ch < uint32 (Ticks w - fadeStart ch)"
  then show "Channel_Mix glm frames filters reads ch w
          = Some (Inr (), [], ch\<lparr>source := None\<rparr>, w\<lparr>calls := calls w @ finished_calls ch w\<rparr>)"
    by (intro Mix_fade_out_done) blast+
qed

theorem fade_out_linear_witness:
  "fade (Channel_FadeOut 1000 demo_channel demo_busy) = FadeOut
   \<and> fadeVolume (Channel_FadeOut 1000 demo_channel demo_busy) = 256
   \<and> fadeTime (Channel_FadeOut 1000 demo_channel demo_busy) = 1000
   \<and> uint32 (Ticks (demo_busy\<lparr>Ticks := 250\<rparr>)
               - fadeStart (Channel_FadeOut 1000 demo_channel demo_busy)) = 250
   \<and> map_option (map scale \<circ> fst \<circ> snd)
        (Channel_Mix demo_glm 4 [] [(4, 4)] (Channel_FadeOut 1000 demo_channel demo_busy)
           (demo_busy\<lparr>Ticks := 250\<rparr>))
       = Some [192]
   \<and> \<bar>192 - 256 * (1000 - 250) / 1000\<bar> \<le> (1::real)
   \<and> map_option (\<lambda>(r, cs, ch', w'). (r, cs, source ch', calls w'))
        (Channel_Mix demo_glm 4 [] [(4, 4)] (Channel_FadeOut 1000 demo_channel demo_busy)
           (demo_busy\<lparr>Ticks := 1001\<rparr>))
       = Some (Inr (), [], None, [Finished_call 7 0, ChannelFinished_call 9 0])"
  using fade_out_linear
          [where ch = "Channel_FadeOut 1000 demo_channel demo_busy"
             and w = "demo_busy\<lparr>Ticks := 250\<rparr>" and glm = demo_glm and frames = 4
             and filters = "[]" and reads = "[(4, 4)]" and s = 0]
  by (simp add: demo_defs Channel_FadeOut_def Channel_Mix_def Mix_fade_def Mix_toRead_def
        Mix_read_def EffectiveRate_def EffectiveVolume_def set_Position_def int32_def uint32_def
        div32_def quot_def Channel_Age_def Infinite_def MaxVolume_def Let_def
        Channel_StopPlaying_def OnChannelFinished_def)

subsection \<open>The counter of a source\<close>

lemma counted_refl: "heap w' = heap w \<Longrightarrow> counted s w w'"
  by (simp add: counted_def)

lemma counted_same: "CanSeek (heap w' s) = CanSeek (heap w s) \<Longrightarrow> playing (heap w' s) = playing (heap w s) \<Longrightarrow> counted s w w'"
  by (simp add: counted_def)

lemma counted_heap: "counted s w w' \<Longrightarrow> heap w1 = heap w \<Longrightarrow> heap w1' = heap w' \<Longrightarrow> counted s w1 w1'"
  by (simp add: counted_def)

lemma chan_put_heap [simp]: "heap (chan_put w i c) = heap w"
  by (simp add: chan_put_def)

lemma StartPlaying_counted:
  "Channel_StartPlaying glm s0 lps fd fadeMs timeoutMs ch w = (r, ch', w') \<Longrightarrow> counted s w w'"
proof (cases "Channel_StopPlaying ch w")
  case (Pair ch1 w1)
  assume a: "Channel_StartPlaying glm s0 lps fd fadeMs timeoutMs ch w = (r, ch', w')"
  have h: "heap w1 = heap w" using StopPlaying_heap[OF Pair] .
  from a Pair h show ?thesis
    by (auto simp: Channel_StartPlaying_def Let_def counted_def split: if_splits sum.splits)
qed

lemma StartPlaying_increments:
  "Channel_StartPlaying glm s lps fd fadeMs timeoutMs ch w = (Inr (), ch', w')
     \<Longrightarrow> playing (heap w' s) = int32 (playing (heap w s) + 1)"
proof (cases "Channel_StopPlaying ch w")
  case (Pair ch1 w1)
  assume a: "Channel_StartPlaying glm s lps fd fadeMs timeoutMs ch w = (Inr (), ch', w')"
  have h: "heap w1 = heap w" using StopPlaying_heap[OF Pair] .
  from a Pair h show ?thesis
    by (auto simp: Channel_StartPlaying_def Let_def split: if_splits sum.splits)
qed

lemma StartPlaying_unseekable:
  assumes "\<not> CanSeek (heap w s)" "0 < playing (heap w s)"
  shows "fst (Channel_StartPlaying glm s lps fd fadeMs timeoutMs ch w)
           = Inl (if \<not> CanRewind (heap w s) \<and> lps \<noteq> 0 then loop_error else unseekable_error)"
proof (cases "Channel_StopPlaying ch w")
  case (Pair ch1 w1)
  have h: "heap w1 = heap w" using StopPlaying_heap[OF Pair] .
  from assms Pair h show ?thesis
    by (simp add: Channel_StartPlaying_def)
qed

lemma scan_counted:
  "StartPlaying_scan glm s0 lps fd fadeMs timeoutMs cs tried w = (r, tried', w') \<Longrightarrow> counted s w w'"
proof (induction cs arbitrary: tried)
  case Nil
  then show ?case by (simp add: counted_def)
next
  case (Cons i cs)
  then show ?case
    by (auto simp: counted_refl split: sum.splits if_splits prod.splits
          dest!: StartPlaying_counted[where s = s] elim: counted_heap)
qed

lemma retry_counted:
  "StartPlaying_retry glm channel s0 lps fd fadeMs timeoutMs w = Some y \<Longrightarrow> counted s w (snd y)"
  apply (rule StartPlaying_retry.raw_induct
           [where P = "\<lambda>glm channel s0 lps fd fadeMs timeoutMs w y. counted s w (snd y)"])
   apply (auto simp: counted_refl split: sum.splits prod.splits option.splits if_splits
            dest: scan_idle scan_counted[where s = s])
  done

lemma StartPlaying_on_counted:
  "StartPlaying_on glm i s0 lps fd fadeMs timeoutMs w = (r, w') \<Longrightarrow> counted s w w'"
  by (auto simp: StartPlaying_on_def counted_refl split: sum.splits prod.splits
        dest!: StartPlaying_counted[where s = s] elim: counted_heap)

lemma Mixer_StartPlaying_counted:
  assumes "Mixer_StartPlaying glm channel s0 lps fd fadeMs timeoutMs w = Some (r, w')"
  shows "counted s w w'"
proof (cases "StartPlaying_retry glm channel s0 lps fd fadeMs timeoutMs w")
  case None
  with assms show ?thesis
    by (auto simp: Mixer_StartPlaying_def counted_refl split: sum.splits if_splits)
next
  case (Some y)
  from retry_never_falls_through[OF Some] retry_counted[OF Some, of s] Some assms show ?thesis
    by (cases y) (auto simp: Mixer_StartPlaying_def counted_refl split: sum.splits if_splits option.splits)
qed

lemma StartPlaying_channel_counted:
  "StartPlaying_channel glm channel s0 lps fd fadeMs timeoutMs w = Some (r, w') \<Longrightarrow> counted s w w'"
  by (auto simp: StartPlaying_channel_def counted_refl split: if_splits
        dest: Mixer_StartPlaying_counted StartPlaying_on_counted)


lemma set_Position_counts [simp]:
  "CanSeek (heap (set_Position s0 p w) s) = CanSeek (heap w s)"
  "playing (heap (set_Position s0 p w) s) = playing (heap w s)"
  by (simp_all add: set_Position_def)

lemma Mix_loop_counts:
  "Mix_loop glm fmt conv nof vol s0 reads toRead acc ch w = Some (r, cs, ch', w') \<Longrightarrow>
     CanSeek (heap w' s) = CanSeek (heap w s) \<and> playing (heap w' s) = playing (heap w s)"
proof (induction reads arbitrary: toRead acc ch w)
  case Nil
  then show ?case by simp
next
  case (Cons a reads)
  obtain read pos where a: "a = (read, pos)" by (cases a)
  obtain rr ch1 where mr: "Mix_read glm fmt conv nof vol toRead read ch (set_Position s0 pos w) = (rr, ch1)"
    by (cases "Mix_read glm fmt conv nof vol toRead read ch (set_Position s0 pos w)")
  show ?case
  proof (cases rr)
    case (Inl e)
    with Cons.prems a mr show ?thesis by (auto simp: Let_def)
  next
    case (Inr cs1)
    show ?thesis
    proof (cases "int32 (toRead - read) \<le> 0")
      case True
      with Cons.prems(1) a mr Inr show ?thesis by (auto simp: Let_def)
    next
      case False
      note nle = this
      show ?thesis
      proof (cases "read = 0")
        case True
        show ?thesis
        proof (cases "loops ch1 = 0")
          case True
          obtain ch2 w2 where sp: "Channel_StopPlaying ch1 (set_Position s0 pos w) = (ch2, w2)"
            by (cases "Channel_StopPlaying ch1 (set_Position s0 pos w)")
          from StopPlaying_heap[OF sp] Cons.prems(1) a mr Inr nle \<open>read = 0\<close> True sp show ?thesis
            by (auto simp: Let_def)
        next
          case False
          let ?ch2 = "ch1\<lparr>position := 0, loops := (if loops ch1 = Infinite then loops ch1 else int32 (loops ch1 - 1))\<rparr>"
          have rec: "Mix_loop glm fmt conv nof vol s0 reads (int32 (toRead - read)) (acc @ cs1) ?ch2
                       (set_Position s0 0 (set_Position s0 pos w)) = Some (r, cs, ch', w')"
            using Cons.prems(1) a mr Inr nle \<open>read = 0\<close> False by (simp add: Let_def)
          from Cons.IH[OF rec] show ?thesis by simp
        qed
      next
        case False
        have rec: "Mix_loop glm fmt conv nof vol s0 reads (int32 (toRead - read)) (acc @ cs1) ch1
                       (set_Position s0 pos w) = Some (r, cs, ch', w')"
          using Cons.prems(1) a mr Inr nle False by (simp add: Let_def)
        from Cons.IH[OF rec] show ?thesis by simp
      qed
    qed
  qed
qed

lemma Mix_counts:
  assumes mix: "Channel_Mix glm frames filters reads ch w = Some (r, cs, ch', w')"
  shows "CanSeek (heap w' s) = CanSeek (heap w s) \<and> playing (heap w' s) = playing (heap w s)"
proof (cases "source ch")
  case None
  with mix show ?thesis by (simp add: Mix_idle)
next
  case (Some s0)
  note src = this
  show ?thesis
  proof (cases "paused ch")
    case True
    with mix src show ?thesis by (simp add: Mix_paused)
  next
    case False
    note np = this
    show ?thesis
    proof (cases "timeout ch \<noteq> Infinite \<and> Channel_Age ch w > timeout ch")
      case True
      with mix src np show ?thesis by (auto simp: Mix_timeout)
    next
      case False
      note mp = Mix_playing[OF src np False, of glm frames filters reads]
      show ?thesis
      proof (cases "Mix_fade (EffectiveVolume ch (heap w s0)) ch w")
        case (Inl e)
        with mix mp show ?thesis by simp
      next
        case (Inr p)
        obtain v ch1 where p: "p = (v, ch1)" by (cases p)
        note mf = Inr[unfolded p]
        show ?thesis
        proof (cases v)
          case None
          obtain ch2 w2 where sp: "Channel_StopPlaying ch1 w = (ch2, w2)"
            by (cases "Channel_StopPlaying ch1 w")
          from StopPlaying_heap[OF sp] mix mp mf None sp show ?thesis by auto
        next
          case (Some vol)
          define w1 where "w1 = (if CanSeek (heap w s0) then set_Position s0 (position ch1) w else w)"
          have w1: "CanSeek (heap w1 s) = CanSeek (heap w s)" "playing (heap w1 s) = playing (heap w s)"
            by (simp_all add: w1_def)
          show ?thesis
          proof (cases "Mix_toRead glm frames (EffectiveRate ch (heap w s0)) (src_format (heap w s0)) ch1 w1")
            case (Inl e)
            with mix mp mf Some w1 show ?thesis by (auto simp: w1_def[symmetric])
          next
            case (Inr q)
            note q = this
            show ?thesis
            proof (cases q)
              case None
              with mix mp mf Some w1 q show ?thesis by (auto simp: w1_def[symmetric])
            next
              case (Some t)
              obtain toRead fmt' conv ch2 where t: "t = (toRead, fmt', conv, ch2)" by (cases t)
              have ml: "Mix_loop glm fmt' conv (Filters ch2 = [] \<and> filters = []) vol s0 reads toRead [] ch2 w1
                          = Some (r, cs, ch', w')"
                using mix mp mf \<open>v = Some vol\<close> q Some t by (simp add: w1_def[symmetric])
              from Mix_loop_counts[OF ml, of s] w1 show ?thesis by simp
            qed
          qed
        qed
      qed
    qed
  qed
qed

lemma stop_channels_heap: "stop_channels is w = (r, w') \<Longrightarrow> heap w' = heap w"
proof (induction "is" arbitrary: w)
  case Nil
  then show ?case by simp
next
  case (Cons i "is")
  show ?case
  proof (cases "chan_at w (int i)")
    case (Inl e)
    with Cons.prems show ?thesis by simp
  next
    case (Inr c)
    obtain c1 w1 where sp: "Channel_StopPlaying c w = (c1, w1)" by (cases "Channel_StopPlaying c w")
    from Cons.prems Inr sp have "stop_channels is (chan_put w1 (int i) c1) = (r, w')"
      by (simp add: Channel_Stop_def)
    from Cons.IH[OF this] StopPlaying_heap[OF sp] show ?thesis by simp
  qed
qed

lemma AllocateChannels_heap: "heap (snd (Mixer_AllocateChannels n w)) = heap w"
proof (cases "stop_channels [nat n ..< length (chans w)] w")
  case (Pair r w1)
  from stop_channels_heap[OF Pair] Pair show ?thesis
    by (auto simp: Mixer_AllocateChannels_def Let_def split: sum.splits)
qed

lemma exec_counted: "exec glm x w = Some w' \<Longrightarrow> counted s w w'"
proof (cases x)
  case (Op_Play s0 lps timeoutMs channel)
  assume "exec glm x w = Some w'"
  with Op_Play show ?thesis
    by (auto simp: AudioSource_Play_def dest: StartPlaying_channel_counted)
next
  case (Op_FadeIn s0 fadeMs lps timeoutMs channel)
  assume "exec glm x w = Some w'"
  with Op_FadeIn show ?thesis
    by (auto simp: AudioSource_FadeIn_def dest: StartPlaying_channel_counted)
next
  case (Op_Stop i)
  assume "exec glm x w = Some w'"
  with Op_Stop show ?thesis
    by (auto simp: Channel_Stop_def counted_refl split: if_splits sum.splits prod.splits
          dest!: StopPlaying_heap)
next
  case (Op_Mix i frames reads)
  assume "exec glm x w = Some w'"
  with Op_Mix show ?thesis
    by (auto simp: counted_refl split: if_splits sum.splits prod.splits option.splits
          dest!: Mix_counts[where s = s] intro!: counted_same)
next
  case (Op_AllocateChannels n)
  assume "exec glm x w = Some w'"
  with Op_AllocateChannels AllocateChannels_heap[of n w] show ?thesis
    by (auto simp: counted_refl)
qed (auto simp: counted_def on_channel_def on_source_def AudioSource_set_Volume_def
       AudioSource_set_PlaybackRate_def Mixer_set_ReservedChannels_def Mixer_AddGroup_def
       Mixer_RemoveGroup_def Mixer_GroupChannel_def Mixer_UngroupChannel_def
       split: sum.splits option.splits if_splits)

lemma run_stuck:
  "run glm xs w = Some w' \<Longrightarrow> \<not> CanSeek (heap w s) \<Longrightarrow> 0 < playing (heap w s)
     \<Longrightarrow> \<not> CanSeek (heap w' s) \<and> playing (heap w' s) = playing (heap w s)"
proof (induction xs arbitrary: w)
  case Nil
  then show ?case by simp
next
  case (Cons x xs)
  from Cons.prems(1) obtain w1 where e: "exec glm x w = Some w1" and r: "run glm xs w1 = Some w'"
    by (auto split: option.splits)
  from exec_counted[OF e, of s] Cons.prems(2,3)
  have "\<not> CanSeek (heap w1 s)" "playing (heap w1 s) = playing (heap w s)"
    by (auto simp: counted_def)
  with Cons.IH[OF r] Cons.prems(3) show ?case by simp
qed


lemma scan_fails:
  assumes "\<And>ch. \<exists>e. fst (Channel_StartPlaying glm s lps fd fadeMs timeoutMs ch w) = Inl e"
  shows "fst (StartPlaying_scan glm s lps fd fadeMs timeoutMs cs tried w) \<noteq> Inr (Some i)"
proof (induction cs arbitrary: tried)
  case Nil
  then show ?case by simp
next
  case (Cons j cs)
  show ?case
  proof (cases "chan_at w j")
    case (Inl e)
    then show ?thesis by simp
  next
    case (Inr c)
    note l = chan_at_lock[OF Inr]
    obtain r c1 w1 where sp: "Channel_StartPlaying glm s lps fd fadeMs timeoutMs c w = (r, c1, w1)"
      by (cases "Channel_StartPlaying glm s lps fd fadeMs timeoutMs c w")
    with assms[of c] obtain e where "r = Inl e" by auto
    with Inr l sp Cons.IH show ?thesis by simp
  qed
qed

lemma retry_fails:
  "StartPlaying_retry glm channel s lps fd fadeMs timeoutMs w = Some y
    \<Longrightarrow> (\<forall>ch. \<exists>e. fst (Channel_StartPlaying glm s lps fd fadeMs timeoutMs ch w) = Inl e)
          \<longrightarrow> (\<exists>e. fst y = Inl e)"
  apply (rule StartPlaying_retry.raw_induct
           [where P = "\<lambda>glm channel s lps fd fadeMs timeoutMs w y.
              (\<forall>ch. \<exists>e. fst (Channel_StartPlaying glm s lps fd fadeMs timeoutMs ch w) = Inl e)
                \<longrightarrow> (\<exists>e. fst y = Inl e)"])
   apply (auto split: sum.splits prod.splits option.splits if_splits dest: scan_idle)
  using scan_fails apply (metis fst_conv)
  done

lemma channel_fails:
  assumes f: "\<And>ch. \<exists>e. fst (Channel_StartPlaying glm s lps fd fadeMs timeoutMs ch w) = Inl e"
    and "StartPlaying_channel glm channel s lps fd fadeMs timeoutMs w = Some (r, w')"
  shows "(\<exists>e. r = Inl e) \<or> (r = Inr (- 1) \<and> w' = w)"
proof (cases "channel < 0")
  case True
  show ?thesis
  proof (cases "StartPlaying_retry glm channel s lps fd fadeMs timeoutMs w")
    case None
    with assms True show ?thesis
      by (auto simp: StartPlaying_channel_def Mixer_StartPlaying_def split: sum.splits if_splits)
  next
    case (Some y)
    with retry_fails[OF Some] f obtain e where "fst y = Inl e" by auto
    with Some assms(2) True show ?thesis
      by (cases y) (auto simp: StartPlaying_channel_def Mixer_StartPlaying_def split: sum.splits if_splits)
  qed
next
  case False
  show ?thesis
  proof (cases "init w")
    case True
    show ?thesis
    proof (cases "lock_chan_at w channel")
      case (Inl e)
      with assms(2) False True show ?thesis
        by (auto simp: StartPlaying_channel_def StartPlaying_on_def)
    next
      case (Inr c)
      obtain r1 c1 w1 where sp: "Channel_StartPlaying glm s lps fd fadeMs timeoutMs c w = (r1, c1, w1)"
        by (cases "Channel_StartPlaying glm s lps fd fadeMs timeoutMs c w")
      with f[of c] obtain e where "r1 = Inl e" by auto
      with assms(2) False True Inr sp show ?thesis
        by (auto simp: StartPlaying_channel_def StartPlaying_on_def)
    qed
  next
    case False
    with assms(2) \<open>\<not> channel < 0\<close> show ?thesis by (auto simp: StartPlaying_channel_def)
  qed
qed

text \<open>
  C10.  A call of \<^verbatim>\<open>Channel.StartPlaying\<close> that returns has incremented the counter
  \<^verbatim>\<open>playing\<close> of its source (in 32-bit arithmetic); for a source that cannot seek and
  has never been played, the counter is 1 afterwards.  \<^verbatim>\<open>StopPlaying\<close> changes no
  source, and no step of a program (a call of the public surface, a mix pass, a tick of
  the clock) takes the counter of any source to a value other than the one it had or
  its increment.  So once a source that cannot seek has a positive counter, then after
  any sequence of steps that runs to its end it still cannot seek and has the same
  counter; every later \<^verbatim>\<open>Channel.StartPlaying\<close> on it, on any channel and with any
  arguments, throws an \<^verbatim>\<open>ArgumentException\<close> (the one for loops if it applies, else
  the one for unseekable streams); and \<^verbatim>\<open>Play\<close> and \<^verbatim>\<open>FadeIn\<close> never return the index
  of a channel for it: they throw, or return \<open>-1\<close> with nothing changed.
\<close>

theorem playing_never_decremented:
  "(Channel_StartPlaying glm s lps fd fadeMs timeoutMs ch w = (Inr (), ch', w') \<longrightarrow>
      playing (heap w' s) = int32 (playing (heap w s) + 1)
      \<and> (\<not> CanSeek (heap w s) \<and> playing (heap w s) = 0 \<longrightarrow>
           \<not> CanSeek (heap w' s) \<and> playing (heap w' s) = 1))
   \<and> heap (snd (Channel_StopPlaying ch w)) = heap w
   \<and> (exec glm x w = Some w1 \<longrightarrow>
        playing (heap w1 s) = playing (heap w s)
        \<or> playing (heap w1 s) = int32 (playing (heap w s) + 1))
   \<and> (\<not> CanSeek (heap w s) \<and> 0 < playing (heap w s) \<and> run glm xs w = Some w2 \<longrightarrow>
        \<not> CanSeek (heap w2 s) \<and> playing (heap w2 s) = playing (heap w s)
        \<and> fst (Channel_StartPlaying glm s lps2 fd2 fadeMs2 timeoutMs2 ch2 w2)
            = Inl (if \<not> CanRewind (heap w2 s) \<and> lps2 \<noteq> 0 then loop_error else unseekable_error)
        \<and> (\<forall>r w3. StartPlaying_channel glm channel s lps2 fd2 fadeMs2 timeoutMs2 w2 = Some (r, w3)
              \<longrightarrow> (\<exists>e. r = Inl e) \<or> (r = Inr (- 1) \<and> w3 = w2)))"
proof (intro conjI impI allI)
  assume a: "Channel_StartPlaying glm s lps fd fadeMs timeoutMs ch w = (Inr (), ch', w')"
  show inc: "playing (heap w' s) = int32 (playing (heap w s) + 1)"
    using StartPlaying_increments[OF a] .
  assume b: "\<not> CanSeek (heap w s) \<and> playing (heap w s) = 0"
  from StartPlaying_counted[OF a, of s] b show "\<not> CanSeek (heap w' s)" by (simp add: counted_def)
  from inc b show "playing (heap w' s) = 1" by (simp add: int32_def)
next
  show "heap (snd (Channel_StopPlaying ch w)) = heap w"
    using StopPlaying_heap[of ch w] by (cases "Channel_StopPlaying ch w") simp
next
  assume "exec glm x w = Some w1"
  from exec_counted[OF this, of s]
  show "playing (heap w1 s) = playing (heap w s)
        \<or> playing (heap w1 s) = int32 (playing (heap w s) + 1)"
    by (auto simp: counted_def)
next
  assume a: "\<not> CanSeek (heap w s) \<and> 0 < playing (heap w s) \<and> run glm xs w = Some w2"
  then have st: "\<not> CanSeek (heap w2 s) \<and> playing (heap w2 s) = playing (heap w s)"
    using run_stuck[of glm xs w w2 s] by simp
  then show "\<not> CanSeek (heap w2 s)" "playing (heap w2 s) = playing (heap w s)" by simp_all
  have pos: "0 < playing (heap w2 s)" using a st by simp
  show "fst (Channel_StartPlaying glm s lps2 fd2 fadeMs2 timeoutMs2 ch2 w2)
            = Inl (if \<not> CanRewind (heap w2 s) \<and> lps2 \<noteq> 0 then loop_error else unseekable_error)"
    using st pos by (intro StartPlaying_unseekable) simp_all
  fix r w3
  assume c: "StartPlaying_channel glm channel s lps2 fd2 fadeMs2 timeoutMs2 w2 = Some (r, w3)"
  have "\<exists>e. fst (Channel_StartPlaying glm s lps2 fd2 fadeMs2 timeoutMs2 c0 w2) = Inl e" for c0
    using StartPlaying_unseekable[of w2 s glm lps2 fd2 fadeMs2 timeoutMs2 c0] st pos by simp
  from channel_fails[OF this c] show "(\<exists>e. r = Inl e) \<or> (r = Inr (- 1) \<and> w3 = w2)" .
qed


lemmas eval_defs = demo_defs demo_idle_def demo_played_def candidates_def chan_at_def
  lock_chan_at_def chan_put_def Channel_Status_def Channel_StartPlaying_def Channel_StopPlaying_def
  Channel_Stop_def OnChannelFinished_def Mixer_Format_def CheckInit_def FreeChannel_def
  Infinite_def int32_def uint32_def upto.simps Let_def

theorem playing_never_decremented_witness:
  "\<not> CanSeek (heap demo_idle 1) \<and> playing (heap demo_idle 1) = 0
   \<and> map_option (\<lambda>(r, w). (r, map (map_option source) (chans w), playing (heap w 1)))
        (AudioSource_Play demo_glm 1 0 Infinite FreeChannel demo_idle)
       = Some (Inr 0, [Some (Some 1)], 1)
   \<and> \<not> CanSeek (heap demo_played 1) \<and> 0 < playing (heap demo_played 1)
   \<and> map_option (\<lambda>w. (map (map_option source) (chans w), playing (heap w 1)))
        (run demo_glm [Op_Stop 0, Op_Ticks 5] demo_played)
       = Some ([Some None], 1)
   \<and> map_option fst
        (AudioSource_Play demo_glm 1 0 Infinite FreeChannel
           (the (run demo_glm [Op_Stop 0, Op_Ticks 5] demo_played)))
       = Some (Inl unseekable_error)"
proof -
  have c1: "candidates FreeChannel demo_idle = Inr [0]"
    by (simp add: eval_defs)
  obtain r1 t1 w1 where s1: "StartPlaying_scan demo_glm 1 0 FadeNone 0 Infinite [0] False demo_idle = (r1, t1, w1)"
    by (cases "StartPlaying_scan demo_glm 1 0 FadeNone 0 Infinite [0] False demo_idle")
  then have v1: "r1 = Inr (Some 0)" "map (map_option source) (chans w1) = [Some (Some 1)]"
    "playing (heap w1 1) = 1"
    by (auto simp: eval_defs)
  have p1: "AudioSource_Play demo_glm 1 0 Infinite FreeChannel demo_idle = Some (Inr 0, w1)"
    using retry_found[OF c1 s1] v1(1)
    by (simp add: AudioSource_Play_def StartPlaying_channel_def Mixer_StartPlaying_def eval_defs)
  define w2 where "w2 = the (run demo_glm [Op_Stop 0, Op_Ticks 5] demo_played)"
  have r2: "run demo_glm [Op_Stop 0, Op_Ticks 5] demo_played = Some w2"
    by (simp add: w2_def eval_defs)
  have v2: "map (map_option source) (chans w2) = [Some None]" "playing (heap w2 1) = 1"
    "init w2" "reserved w2 = 0"
    by (simp_all add: w2_def eval_defs)
  have st: "\<not> CanSeek (heap demo_played 1) \<and> 0 < playing (heap demo_played 1)"
    by (simp add: eval_defs)
  note inst = playing_never_decremented
      [where w = demo_played and s = 1 and glm = demo_glm and xs = "[Op_Stop 0, Op_Ticks 5]"
         and ?w2.0 = w2 and ?lps2.0 = 0 and ?fd2.0 = FadeNone and ?fadeMs2.0 = 0
         and ?timeoutMs2.0 = Infinite and channel = FreeChannel]
  have c2: "candidates FreeChannel w2 = Inr [0]"
    using v2 by (cases "chans w2") (auto simp: candidates_def FreeChannel_def upto.simps)
  obtain r3 t3 w3 where s3: "StartPlaying_scan demo_glm 1 0 FadeNone 0 Infinite [0] False w2 = (r3, t3, w3)"
    by (cases "StartPlaying_scan demo_glm 1 0 FadeNone 0 Infinite [0] False w2")
  then have v3: "r3 = Inl unseekable_error"
    by (auto simp: w2_def eval_defs)
  have p3: "AudioSource_Play demo_glm 1 0 Infinite FreeChannel w2 = Some (Inl unseekable_error, w3)"
    using retry_found[OF c2 s3] v3 v2
    by (cases "chans w2")
       (auto simp: AudioSource_Play_def StartPlaying_channel_def Mixer_StartPlaying_def
          CheckInit_def FreeChannel_def)
  show ?thesis
    using inst p1 v1 r2 v2 p3 st
    by (simp add: w2_def[symmetric]) (simp add: eval_defs)
qed

end
